theory Spec2Isabelle
  imports Main
begin

section \<open>Values, exceptions and the world the stages act on\<close>

text \<open>
  The document pipeline is a chain of Celery tasks. Each task reads and writes the local
  file system, the relational store (tables \<open>files\<close> and \<open>processing_logs\<close>), the task
  queue of the broker and, for the mailbox poller, a Redis key and a JSON cache file.
  The embedding threads one \<open>world\<close> value through every operation; a Python exception is
  the \<open>Inl\<close> branch of the result.

  Text and raw bytes are both \<open>string\<close> (a list of 8-bit characters).
\<close>

datatype exn =
    OperationalError
  | MultipleResultsFound
  | FileDataError
  | FileNotFoundError
  | JSONDecodeError
  | ValueError
  | TypeError
  | APIError
  | SameFileError
  | ConnectionError

fun exn_str :: "exn \<Rightarrow> string" where
  "exn_str OperationalError = ''OperationalError''"
| "exn_str MultipleResultsFound = ''MultipleResultsFound''"
| "exn_str FileDataError = ''FileDataError''"
| "exn_str FileNotFoundError = ''FileNotFoundError''"
| "exn_str JSONDecodeError = ''JSONDecodeError''"
| "exn_str ValueError = ''ValueError''"
| "exn_str TypeError = ''TypeError''"
| "exn_str APIError = ''APIError''"
| "exn_str SameFileError = ''SameFileError''"
| "exn_str ConnectionError = ''ConnectionError''"

datatype json =
    JNull
  | JBool bool
  | JNum int
  | JStr string
  | JList "json list"
  | JObj "(string \<times> json) list"

text \<open>A row of table \<open>files\<close> (class \<open>FileRecord\<close>) and of table \<open>processing_logs\<close>.\<close>

record FileRecord =
  rec_id :: nat
  filehash :: string
  original_filename :: string
  local_filename :: string
  file_size :: nat
  mime_type :: string

record ProcessingLog =
  log_id :: nat
  log_task_id :: string
  log_step_name :: string
  log_status :: string
  log_message :: "string option"
  log_file_id :: "nat option"

text \<open>A task invocation as \<open>.delay(...)\<close> hands it to the broker.\<close>

datatype task =
    Process_document string
  | Process_with_textract string
  | Extract_metadata_with_gpt string string
  | Embed_metadata_into_pdf string string json
  | Finalize_document_storage string string json
  | Send_to_all_destinations string
  | Upload_to_dropbox string
  | Upload_to_nextcloud string
  | Upload_to_paperless string
  | Upload_to_s3 string

text \<open>
  The IMAP commands the poller sends, kept as a trace, and a message as the server
  holds it: whether \<open>FETCH (RFC822)\<close> answers OK, the \<open>Message-ID\<close> header, the MIME parts
  in \<open>walk()\<close> order and the raw \<open>X-GM-LABELS\<close> answer.
\<close>

record mime_part =
  content_maintype :: string
  content_type :: string
  part_filename :: "string option"
  payload :: string

record mail_message =
  msg_num :: string
  fetch_ok :: bool
  message_id :: "string option"
  parts :: "mime_part list"
  gm_labels :: "string option"

datatype imap_cmd =
    Imap_connect string nat bool
  | Imap_login string
  | Imap_select
  | Imap_search
  | Imap_fetch string
  | Imap_fetch_labels string
  | Imap_store string string string
  | Imap_expunge
  | Imap_close
  | Imap_logout

record mail_server =
  reachable :: bool
  search_ok :: bool
  unseen :: "mail_message list"

text \<open>The content of the seen-mail cache file \<open>processed_mails.json\<close>.\<close>

datatype cache_file =
    Not_json
  | Json_dict "(string \<times> string) list"

record world =
  fs :: "string \<rightharpoonup> string"
  files :: "FileRecord list"
  next_file_id :: nat
  processing_logs :: "ProcessingLog list"
  next_log_id :: nat
  db_faults :: "bool list"
  queue :: "(string \<times> task) list"
  uuid_counter :: nat
  now :: int
  redis :: "string \<rightharpoonup> string \<times> int option"
  cache :: "cache_file option"
  mail_servers :: "string \<rightharpoonup> mail_server"
  imap_trace :: "imap_cmd list"

text \<open>
  \<open>db_faults\<close> schedules the faults of the relational store: every database operation
  (a query, a commit) takes the head of the list and fails with \<open>OperationalError\<close> when it
  is \<open>True\<close>; the empty list means that no further operation fails. \<open>now\<close> is the UTC clock
  in microseconds. A Redis key holds a value and, once \<open>EXPIRE\<close> has been called, the
  instant at which the server drops it.
\<close>

text \<open>
  The collaborators outside the repository: the settings, SHA-256, \<open>mimetypes\<close>,
  \<open>uuid4\<close>, PyMuPDF, the language model, the JSON codec and \<open>datetime\<close>'s \<open>strptime\<close> and
  \<open>strftime\<close> for the format of the seen-mail cache.
  \<open>fitz_pages b\<close> is the text of each page of the document with bytes \<open>b\<close>, or \<open>None\<close>
  when PyMuPDF cannot open it.
\<close>

record imap_settings =
  imap_host :: "string option"
  imap_port :: "nat option"
  imap_username :: "string option"
  imap_password :: "string option"
  imap_ssl :: bool
  imap_delete_after_process :: bool

record env =
  workdir :: string
  imap1 :: imap_settings
  imap2 :: imap_settings
  sha256 :: "string \<Rightarrow> string"
  guess_type :: "string \<Rightarrow> string option"
  uuid_of :: "nat \<Rightarrow> string"
  fitz_pages :: "string \<Rightarrow> string list option"
  fitz_set_metadata :: "string \<Rightarrow> (string \<times> json) list \<Rightarrow> string option"
  chat_completion :: "string \<Rightarrow> exn + string option"
  json_loads :: "string \<Rightarrow> json option"
  json_dumps :: "json \<Rightarrow> string"
  strptime :: "string \<Rightarrow> int option"
  strftime :: "int \<Rightarrow> string"
  prompt_template :: "string \<Rightarrow> string"
  sql_like :: "string \<Rightarrow> string \<Rightarrow> bool"

subsection \<open>Sequencing, exceptions and handlers\<close>

type_synonym 'a io = "world \<Rightarrow> (exn + 'a) \<times> world"

definition io_return :: "'a \<Rightarrow> 'a io" where
  "io_return x w = (Inr x, w)"

definition io_raise :: "exn \<Rightarrow> 'a io" where
  "io_raise e w = (Inl e, w)"

definition io_bind :: "'a io \<Rightarrow> ('a \<Rightarrow> 'b io) \<Rightarrow> 'b io" where
  "io_bind m k w = (case m w of (Inl e, w') \<Rightarrow> (Inl e, w') | (Inr x, w') \<Rightarrow> k x w')"

text \<open>\<open>try: m except Exception as e: h e\<close>; every exception of the model is an \<open>Exception\<close>.\<close>

definition try_except :: "'a io \<Rightarrow> (exn \<Rightarrow> 'a io) \<Rightarrow> 'a io" where
  "try_except m h w = (case m w of (Inl e, w') \<Rightarrow> h e w' | (Inr x, w') \<Rightarrow> (Inr x, w'))"

text \<open>\<open>try: m finally: fin\<close>; an exception of \<open>fin\<close> replaces the outcome of \<open>m\<close>.\<close>

definition try_finally :: "'a io \<Rightarrow> unit io \<Rightarrow> 'a io" where
  "try_finally m fin w =
     (case m w of (r, w') \<Rightarrow>
        (case fin w' of (Inl e, w'') \<Rightarrow> (Inl e, w'') | (Inr u, w'') \<Rightarrow> (r, w'')))"

definition io_get :: "(world \<Rightarrow> 'a) \<Rightarrow> 'a io" where
  "io_get f w = (Inr (f w), w)"

definition io_modify :: "(world \<Rightarrow> world) \<Rightarrow> unit io" where
  "io_modify f w = (Inr (), f w)"

subsection \<open>The relational store\<close>

definition db_attempt :: "unit io" where
  "db_attempt w =
     (case db_faults w of
        [] \<Rightarrow> (Inr (), w)
      | f # rest \<Rightarrow>
          (if f then Inl OperationalError else Inr (), w\<lparr>db_faults := rest\<rparr>))"

text \<open>\<open>db.query(FileRecord).filter(FileRecord.local_filename == p).first()\<close>\<close>

definition query_first_local_filename :: "string \<Rightarrow> FileRecord option io" where
  "query_first_local_filename p =
     io_bind db_attempt (\<lambda>u. io_get (\<lambda>w. find (\<lambda>r. local_filename r = p) (files w)))"

text \<open>\<open>db.add(ProcessingLog(...)); db.commit()\<close>, returning the new row's id.\<close>

definition add_processing_log ::
  "string \<Rightarrow> string \<Rightarrow> string \<Rightarrow> string option \<Rightarrow> nat option \<Rightarrow> nat io" where
  "add_processing_log task_id step status message file_id =
     io_bind db_attempt (\<lambda>u w.
       (Inr (next_log_id w),
        w\<lparr>processing_logs := processing_logs w @
             [\<lparr>log_id = next_log_id w, log_task_id = task_id, log_step_name = step,
               log_status = status, log_message = message, log_file_id = file_id\<rparr>],
          next_log_id := Suc (next_log_id w)\<rparr>))"

section \<open>app/utils.py\<close>

text \<open>
  The body of the \<open>try\<close> block of \<open>log_task_progress\<close>. \<open>not file_id\<close> holds for \<open>None\<close>
  and for \<open>0\<close>; \<open>file_path\<close> is true when it is a non-empty string.
\<close>

definition log_task_progress_body ::
  "string \<Rightarrow> string \<Rightarrow> string \<Rightarrow> string option \<Rightarrow> nat option \<Rightarrow> string option \<Rightarrow> nat io" where
  "log_task_progress_body task_id step_name status message file_id file_path =
     io_bind
       (case file_path of
          None \<Rightarrow> io_return file_id
        | Some p \<Rightarrow>
            if (file_id = None \<or> file_id = Some 0) \<and> p \<noteq> []
            then io_bind (query_first_local_filename p) (\<lambda>file_record.
                   io_return (case file_record of
                                None \<Rightarrow> file_id
                              | Some r \<Rightarrow> Some (rec_id r)))
            else io_return file_id)
       (\<lambda>file_id. add_processing_log task_id step_name status message file_id)"

definition log_task_progress ::
  "string \<Rightarrow> string \<Rightarrow> string \<Rightarrow> string option \<Rightarrow> nat option \<Rightarrow> string option
     \<Rightarrow> nat option io" where
  "log_task_progress task_id step_name status message file_id file_path =
     try_except
       (io_bind (log_task_progress_body task_id step_name status message file_id file_path)
          (\<lambda>i. io_return (Some i)))
       (\<lambda>e. io_return None)"

text \<open>
  \<open>task_logger(message, level, task_id, step_name, status, file_path, file_id)\<close>. The
  first argument of the model is the id of the Celery task that is running, which the
  source reads from \<open>get_current_task()\<close> when no \<open>task_id\<close> is passed. Console logging is
  not modelled.
\<close>

definition task_logger ::
  "string option \<Rightarrow> string \<Rightarrow> string \<Rightarrow> string option \<Rightarrow> string option \<Rightarrow> string option
     \<Rightarrow> string option \<Rightarrow> nat option \<Rightarrow> nat option io" where
  "task_logger current_task message level task_id step_name status file_path file_id =
     (let task_id = (case task_id of
                       Some t \<Rightarrow> t
                     | None \<Rightarrow> (case current_task of Some t \<Rightarrow> t | None \<Rightarrow> ''unknown_task''));
          step_name = (case step_name of Some s \<Rightarrow> s | None \<Rightarrow> ''general'');
          status = (case status of
                      Some s \<Rightarrow> s
                    | None \<Rightarrow> if level = ''error'' then ''failure''
                              else if level = ''warning'' then ''warning''
                              else ''in_progress'')
      in log_task_progress task_id step_name status (Some message) file_id file_path)"

text \<open>
  The decorator \<open>log_task(step_name)\<close> around a task body \<open>func\<close>. The wrapper is a plain
  function without a \<open>request\<close> attribute, so its task id is \<open>unknown_task\<close>; \<open>file_path\<close> is
  the first positional argument when that is a string.
\<close>

definition log_task :: "string \<Rightarrow> string option \<Rightarrow> 'a io \<Rightarrow> 'a io" where
  "log_task step_name file_path func =
     io_bind (log_task_progress ''unknown_task'' step_name ''pending'' (Some ''Task queued'')
                None file_path) (\<lambda>l0.
     try_except
       (io_bind (log_task_progress ''unknown_task'' step_name ''in_progress''
                   (Some ''Task started'') None file_path) (\<lambda>l1.
        io_bind func (\<lambda>result.
        io_bind (log_task_progress ''unknown_task'' step_name ''success''
                   (Some ''Task completed'') None file_path) (\<lambda>l2.
        io_return result))))
       (\<lambda>e.
        io_bind (log_task_progress ''unknown_task'' step_name ''failure''
                   (Some (''Error: '' @ exn_str e)) None file_path) (\<lambda>l3.
        io_raise e)))"

text \<open>\<open>task.delay(...)\<close>: the broker stores the invocation under a fresh id.\<close>

definition delay :: "env \<Rightarrow> task \<Rightarrow> string io" where
  "delay env t w =
     (Inr (uuid_of env (uuid_counter w)),
      w\<lparr>queue := queue w @ [(uuid_of env (uuid_counter w), t)],
        uuid_counter := Suc (uuid_counter w)\<rparr>)"

section \<open>app/tasks/send\_to\_all.py\<close>

text \<open>
  The fan-out aggregator: three \<open>.delay\<close> calls in a row and a dictionary of the three
  task ids. Nothing of an upload runs here; the invocations are only stored in the queue.
\<close>

definition send_to_all_destinations_func :: "env \<Rightarrow> string option \<Rightarrow> string \<Rightarrow> json io" where
  "send_to_all_destinations_func env current_task file_path =
     io_bind (task_logger current_task (''Sending '' @ file_path @ '' to all destinations'')
                ''info'' None (Some ''send_to_all'') None None None) (\<lambda>l0.
     io_bind (delay env (Upload_to_dropbox file_path)) (\<lambda>dropbox_task.
     io_bind (delay env (Upload_to_nextcloud file_path)) (\<lambda>nextcloud_task.
     io_bind (delay env (Upload_to_paperless file_path)) (\<lambda>paperless_task.
     io_bind (task_logger current_task
                (''Enqueued file for all destinations: Dropbox (task: '' @ dropbox_task @
                 ''), Nextcloud (task: '' @ nextcloud_task @ ''), Paperless (task: '' @
                 paperless_task @ '')'')
                ''info'' None (Some ''send_to_all'') (Some ''success'') None None) (\<lambda>l1.
     io_return (JObj
       [(''status'', JStr ''All upload tasks enqueued''),
        (''file_path'', JStr file_path),
        (''task_ids'', JObj [(''dropbox'', JStr dropbox_task),
                            (''nextcloud'', JStr nextcloud_task),
                            (''paperless'', JStr paperless_task)])]))))))"

definition send_to_all_destinations :: "env \<Rightarrow> string option \<Rightarrow> string \<Rightarrow> json io" where
  "send_to_all_destinations env current_task file_path =
     log_task ''send_to_all_destinations'' (Some file_path)
       (send_to_all_destinations_func env current_task file_path)"

section \<open>Library calls the stages make\<close>

text \<open>
  \<open>posixpath.basename\<close>, \<open>posixpath.join\<close> (two arguments) and \<open>posixpath.splitext\<close>:
  the extension starts at the last dot of the last path component, unless only dots
  precede that dot in the component.
\<close>

definition basename :: "string \<Rightarrow> string" where
  "basename p = rev (takeWhile (\<lambda>c. c \<noteq> CHR ''/'') (rev p))"

definition os_path_join :: "string \<Rightarrow> string \<Rightarrow> string" where
  "os_path_join a b =
     (if take 1 b = ''/'' then b
      else if a = [] \<or> last a = CHR ''/'' then a @ b
      else a @ ''/'' @ b)"

definition splitext :: "string \<Rightarrow> string \<times> string" where
  "splitext p =
     (let base = basename p;
          ext = rev (takeWhile (\<lambda>c. c \<noteq> CHR ''.'') (rev base));
          stem = take (length base - length ext - 1) base
      in if list_ex (\<lambda>c. c = CHR ''.'') base \<and> list_ex (\<lambda>c. c \<noteq> CHR ''.'') stem
         then (take (length p - length ext - 1) p, CHR ''.'' # ext)
         else (p, []))"

text \<open>\<open>starts_with s prefix\<close> is Python's \<open>s.startswith(prefix)\<close>.\<close>

fun starts_with :: "string \<Rightarrow> string \<Rightarrow> bool" where
  "starts_with s [] = True"
| "starts_with [] (c # cs) = False"
| "starts_with (d # ds) (c # cs) = (d = c \<and> starts_with ds cs)"

text \<open>
  The file system holds regular files only: \<open>os.makedirs(..., exist_ok=True)\<close> has no
  effect in the model, and a write never fails for lack of space or permission.
\<close>

definition os_path_exists :: "string \<Rightarrow> bool io" where
  "os_path_exists p = io_get (\<lambda>w. fs w p \<noteq> None)"

definition os_path_getsize :: "string \<Rightarrow> nat io" where
  "os_path_getsize p w =
     (case fs w p of None \<Rightarrow> (Inl FileNotFoundError, w) | Some d \<Rightarrow> (Inr (length d), w))"

definition read_file :: "string \<Rightarrow> string io" where
  "read_file p w =
     (case fs w p of None \<Rightarrow> (Inl FileNotFoundError, w) | Some d \<Rightarrow> (Inr d, w))"

definition write_file :: "string \<Rightarrow> string \<Rightarrow> unit io" where
  "write_file p d = io_modify (\<lambda>w. w\<lparr>fs := (fs w)(p \<mapsto> d)\<rparr>)"

definition os_remove :: "string \<Rightarrow> unit io" where
  "os_remove p w =
     (case fs w p of
        None \<Rightarrow> (Inl FileNotFoundError, w)
      | Some d \<Rightarrow> (Inr (), w\<lparr>fs := (fs w)(p := None)\<rparr>))"

definition shutil_copy :: "string \<Rightarrow> string \<Rightarrow> unit io" where
  "shutil_copy src dst =
     io_bind (read_file src) (\<lambda>d.
     if src = dst then io_raise SameFileError else write_file dst d)"

text \<open>\<open>hash_file\<close> of app/utils.py: SHA-256 over the chunks of the file, read in order.\<close>

definition hash_file :: "env \<Rightarrow> string \<Rightarrow> string io" where
  "hash_file env filepath = io_bind (read_file filepath) (\<lambda>d. io_return (sha256 env d))"

definition uuid4 :: "env \<Rightarrow> string io" where
  "uuid4 env w = (Inr (uuid_of env (uuid_counter w)), w\<lparr>uuid_counter := Suc (uuid_counter w)\<rparr>)"

text \<open>\<open>fitz.open(path)\<close> followed by reading the text of every page.\<close>

definition fitz_open :: "env \<Rightarrow> string \<Rightarrow> string list io" where
  "fitz_open env path =
     io_bind (read_file path) (\<lambda>d.
     case fitz_pages env d of None \<Rightarrow> io_raise FileDataError | Some pages \<Rightarrow> io_return pages)"

text \<open>\<open>db.query(FileRecord).filter(FileRecord.filehash == h).one_or_none()\<close>\<close>

definition query_one_or_none_filehash :: "string \<Rightarrow> FileRecord option io" where
  "query_one_or_none_filehash h =
     io_bind db_attempt (\<lambda>u.
     io_bind (io_get (\<lambda>w. filter (\<lambda>r. filehash r = h) (files w))) (\<lambda>found.
     case found of
       [] \<Rightarrow> io_return None
     | [r] \<Rightarrow> io_return (Some r)
     | r # r' # rs \<Rightarrow> io_raise MultipleResultsFound))"

text \<open>\<open>db.add(FileRecord(...)); db.commit()\<close>: the row is committed under a fresh id.\<close>

definition insert_file_record :: "string \<Rightarrow> string \<Rightarrow> string \<Rightarrow> nat \<Rightarrow> string \<Rightarrow> nat io" where
  "insert_file_record h name local sz mime =
     io_bind db_attempt (\<lambda>u w.
       (Inr (next_file_id w),
        w\<lparr>files := files w @
             [\<lparr>rec_id = next_file_id w, filehash = h, original_filename = name,
               local_filename = local, file_size = sz, mime_type = mime\<rparr>],
          next_file_id := Suc (next_file_id w)\<rparr>))"

text \<open>\<open>new_record.local_filename = p; db.commit()\<close>: an update of the row with that id.\<close>

definition set_local_filename :: "nat \<Rightarrow> string \<Rightarrow> unit io" where
  "set_local_filename i p =
     io_bind db_attempt (\<lambda>u.
     io_modify (\<lambda>w. w\<lparr>files := map (\<lambda>r. if rec_id r = i then r\<lparr>local_filename := p\<rparr> else r)
                                   (files w)\<rparr>))"

section \<open>app/tasks/process\_document.py\<close>

text \<open>
  The ingest stage, in three parts that follow the source in order: the steps after the
  database session (lines 93 to 126), the \<open>else\<close> branch of the duplicate check inside
  the session (lines 61 to 89) and the function from its start (lines 32 to 60). The ORM
  object \<open>new_record\<close> is read after its session is closed (\<open>new_record.id\<close>); the model
  takes these reads to return the id the row was given.
\<close>

definition process_document_extract ::
  "env \<Rightarrow> string \<Rightarrow> string \<Rightarrow> nat \<Rightarrow> string \<Rightarrow> string \<Rightarrow> json io" where
  "process_document_extract env task_id original_local_file new_id new_filename
     new_local_path =
     io_bind (task_logger (Some task_id) ''Checking for embedded text'' ''info''
                (Some task_id) (Some ''check_embedded_text'') None None (Some new_id)) (\<lambda>l5.
     io_bind (fitz_open env new_local_path) (\<lambda>pdf_doc.
     if list_ex (\<lambda>page_text. page_text \<noteq> []) pdf_doc then
       io_bind (task_logger (Some task_id)
                  (''PDF '' @ original_local_file @
                   '' contains embedded text. Processing locally.'')
                  ''info'' (Some task_id) (Some ''process_document'') None None
                  (Some new_id)) (\<lambda>l6.
       io_bind (task_logger (Some task_id) ''Extracting text locally'' ''info''
                  (Some task_id) (Some ''extract_text_locally'') None None
                  (Some new_id)) (\<lambda>l7.
       io_bind (fitz_open env new_local_path) (\<lambda>pdf_doc.
       let extracted_text = concat (map (\<lambda>page_text. page_text @ [CHR 0x0A]) pdf_doc) in
       io_bind (task_logger (Some task_id)
                  ''Text extracted locally. Queuing for metadata extraction.''
                  ''info'' (Some task_id) (Some ''process_document'') (Some ''success'')
                  None (Some new_id)) (\<lambda>l8.
       io_bind (delay env (Extract_metadata_with_gpt new_filename extracted_text))
         (\<lambda>metadata_task.
       io_bind (task_logger (Some task_id)
                  (''Triggered metadata extraction task: '' @ metadata_task) ''info''
                  (Some task_id) (Some ''process_document'') None None None) (\<lambda>l9.
       io_return (JObj [(''file'', JStr new_local_path),
                        (''status'', JStr ''Text extracted locally''),
                        (''file_id'', JNum (int new_id))])))))))
     else
       io_bind (task_logger (Some task_id) ''No embedded text found. Queuing for OCR.''
                  ''info'' (Some task_id) (Some ''process_document'') (Some ''success'')
                  None (Some new_id)) (\<lambda>l6.
       io_bind (delay env (Process_with_textract new_filename)) (\<lambda>ocr_task.
       io_bind (task_logger (Some task_id) (''Triggered OCR task: '' @ ocr_task) ''info''
                  (Some task_id) (Some ''process_document'') None None None) (\<lambda>l7.
       io_return (JObj [(''file'', JStr new_local_path),
                        (''status'', JStr ''Queued for OCR''),
                        (''file_id'', JNum (int new_id))]))))))"

definition process_document_new_record ::
  "env \<Rightarrow> string \<Rightarrow> string \<Rightarrow> string \<Rightarrow> string \<Rightarrow> nat \<Rightarrow> string \<Rightarrow> json io" where
  "process_document_new_record env task_id original_local_file file_hash file_name
     file_len file_mime =
     io_bind (task_logger (Some task_id)
                (''Creating file record for '' @ original_local_file) ''info''
                (Some task_id) (Some ''create_file_record'') None None None) (\<lambda>l3.
     io_bind (insert_file_record file_hash file_name [] file_len file_mime)
       (\<lambda>new_id.
     io_bind db_attempt (\<lambda>refreshed.
     io_bind (task_logger (Some task_id) ''Copying to workdir'' ''info'' (Some task_id)
                (Some ''copy_to_workdir'') None None (Some new_id)) (\<lambda>l4.
     let file_ext = snd (splitext original_local_file) in
     io_bind (uuid4 env) (\<lambda>file_uuid.
     let new_filename = file_uuid @ file_ext;
         tmp_dir = os_path_join (workdir env) ''tmp'';
         new_local_path = os_path_join tmp_dir new_filename in
     io_bind (shutil_copy original_local_file new_local_path) (\<lambda>copied.
     io_bind (set_local_filename new_id new_local_path) (\<lambda>committed.
     process_document_extract env task_id original_local_file new_id new_filename
       new_local_path)))))))"

definition process_document_func :: "env \<Rightarrow> string \<Rightarrow> string \<Rightarrow> json io" where
  "process_document_func env task_id original_local_file =
     io_bind (task_logger (Some task_id) (''Processing '' @ original_local_file) ''info''
                (Some task_id) (Some ''process_document'') None
                (Some original_local_file) None) (\<lambda>l0.
     io_bind (os_path_exists original_local_file) (\<lambda>found.
     if \<not> found then
       io_bind (task_logger (Some task_id) (''File '' @ original_local_file @ '' not found.'')
                  ''error'' (Some task_id) (Some ''process_document'') None None None) (\<lambda>l1.
       io_return (JObj [(''error'', JStr ''File not found'')]))
     else
       io_bind (task_logger (Some task_id) (''Computing hash for '' @ original_local_file)
                  ''info'' (Some task_id) (Some ''compute_hash'') None None None) (\<lambda>l1.
       io_bind (hash_file env original_local_file) (\<lambda>filehash.
       let original_filename = basename original_local_file in
       io_bind (os_path_getsize original_local_file) (\<lambda>file_size.
       let mime_type = (case guess_type env original_local_file of
                          None \<Rightarrow> ''application/octet-stream''
                        | Some m \<Rightarrow> if m = [] then ''application/octet-stream'' else m) in
       io_bind (task_logger (Some task_id) ''Checking for duplicate files'' ''info''
                  (Some task_id) (Some ''check_duplicates'') None None None) (\<lambda>l2.
       io_bind (query_one_or_none_filehash filehash) (\<lambda>existing_record.
       case existing_record of
         Some existing \<Rightarrow>
           io_bind (task_logger (Some task_id)
                      (''Duplicate file detected (hash='' @ take 10 filehash @
                       ''...). Skipping processing.'')
                      ''info'' (Some task_id) (Some ''process_document'') (Some ''success'')
                      None (Some (rec_id existing))) (\<lambda>l3.
           io_return (JObj [(''status'', JStr ''duplicate_file''),
                            (''file_id'', JNum (int (rec_id existing))),
                            (''detail'', JStr ''File already processed.'')]))
       | None \<Rightarrow>
           process_document_new_record env task_id original_local_file filehash
             original_filename file_size mime_type)))))))"

definition process_document :: "env \<Rightarrow> string \<Rightarrow> string \<Rightarrow> json io" where
  "process_document env task_id original_local_file =
     log_task ''process_document'' (Some original_local_file)
       (process_document_func env task_id original_local_file)"

section \<open>app/tasks/imap\_tasks.py\<close>

subsection \<open>Redis and the lock\<close>

text \<open>
  A key is live when it is present and its deadline, if it has one, lies in the future:
  Redis drops a key at its deadline. \<open>SETNX\<close> sets the key only when it is not live,
  \<open>EXPIRE\<close> gives a live key a deadline so many seconds from now, \<open>DEL\<close> removes it. Each
  of the three is one atomic command of the server.
\<close>

definition redis_live :: "world \<Rightarrow> string \<Rightarrow> bool" where
  "redis_live w k =
     (case redis w k of
        None \<Rightarrow> False
      | Some (v, None) \<Rightarrow> True
      | Some (v, Some deadline) \<Rightarrow> now w < deadline)"

definition redis_setnx :: "string \<Rightarrow> string \<Rightarrow> bool io" where
  "redis_setnx k v w =
     (if redis_live w k then (Inr False, w)
      else (Inr True, w\<lparr>redis := (redis w)(k \<mapsto> (v, None))\<rparr>))"

definition redis_expire :: "string \<Rightarrow> int \<Rightarrow> unit io" where
  "redis_expire k seconds w =
     (if redis_live w k
      then (case redis w k of
              None \<Rightarrow> (Inr (), w)
            | Some (v, d) \<Rightarrow>
                (Inr (), w\<lparr>redis := (redis w)(k \<mapsto> (v, Some (now w + seconds * 1000000)))\<rparr>))
      else (Inr (), w))"

definition redis_delete :: "string \<Rightarrow> unit io" where
  "redis_delete k = io_modify (\<lambda>w. w\<lparr>redis := (redis w)(k := None)\<rparr>)"

definition LOCK_KEY :: string where
  "LOCK_KEY = ''imap_lock''"

definition LOCK_EXPIRE :: int where
  "LOCK_EXPIRE = 300"

definition acquire_lock :: "bool io" where
  "acquire_lock =
     io_bind (redis_setnx LOCK_KEY ''locked'') (\<lambda>lock_acquired.
     if lock_acquired
     then io_bind (redis_expire LOCK_KEY LOCK_EXPIRE) (\<lambda>u. io_return True)
     else io_return False)"

definition release_lock :: "unit io" where
  "release_lock = redis_delete LOCK_KEY"

subsection \<open>The seen-mail cache\<close>

text \<open>
  A Python dictionary keeps its keys in insertion order; assigning to a key that is
  present replaces the value in place. \<open>strptime env s\<close> is the instant, in microseconds,
  that \<open>datetime.strptime(s, "%Y-%m-%dT%H:%M:%S")\<close> denotes when read as UTC, or \<open>None\<close>
  when \<open>strptime\<close> raises \<open>ValueError\<close>. The cache file either does not exist, or does not
  decode as JSON, or holds an object of strings.
\<close>

definition timedelta_days :: "int \<Rightarrow> int" where
  "timedelta_days d = d * 86400000000"

fun dict_set :: "('k \<times> 'v) list \<Rightarrow> 'k \<Rightarrow> 'v \<Rightarrow> ('k \<times> 'v) list" where
  "dict_set [] k v = [(k, v)]"
| "dict_set ((k', v') # d) k v =
     (if k' = k then (k, v) # d else (k', v') # dict_set d k v)"

fun cleanup_loop ::
  "env \<Rightarrow> int \<Rightarrow> (string \<times> string) list \<Rightarrow> (string \<times> string) list
     \<Rightarrow> exn + (string \<times> string) list" where
  "cleanup_loop env seven_days_ago valid_emails [] = Inr valid_emails"
| "cleanup_loop env seven_days_ago valid_emails ((msg_id, date_str) # rest) =
     (case strptime env date_str of
        None \<Rightarrow> Inl ValueError
      | Some aware_dt \<Rightarrow>
          cleanup_loop env seven_days_ago
            (if aware_dt > seven_days_ago then dict_set valid_emails msg_id date_str
             else valid_emails)
            rest)"

definition cleanup_old_entries ::
  "env \<Rightarrow> (string \<times> string) list \<Rightarrow> (string \<times> string) list io" where
  "cleanup_old_entries env processed_emails w =
     (case cleanup_loop env (now w - timedelta_days 7) [] processed_emails of
        Inl e \<Rightarrow> (Inl e, w)
      | Inr valid_emails \<Rightarrow> (Inr valid_emails, w))"

definition load_processed_emails :: "env \<Rightarrow> (string \<times> string) list io" where
  "load_processed_emails env w =
     (case cache w of
        None \<Rightarrow> (Inr [], w)
      | Some Not_json \<Rightarrow> (Inr [], w)
      | Some (Json_dict processed_emails) \<Rightarrow> cleanup_old_entries env processed_emails w)"

definition save_processed_emails :: "(string \<times> string) list \<Rightarrow> unit io" where
  "save_processed_emails processed_emails =
     io_modify (\<lambda>w. w\<lparr>cache := Some (Json_dict processed_emails)\<rparr>)"

subsection \<open>Attachments\<close>

text \<open>
  \<open>fetch_attachments_and_enqueue\<close>: the loop over \<open>email_message.walk()\<close>, with the flag
  \<open>has_attachment\<close> as accumulator.
\<close>

fun fetch_attachments_loop :: "env \<Rightarrow> mime_part list \<Rightarrow> bool \<Rightarrow> bool io" where
  "fetch_attachments_loop env [] has_attachment = io_return has_attachment"
| "fetch_attachments_loop env (part # rest) has_attachment =
     (if content_maintype part = ''multipart''
      then fetch_attachments_loop env rest has_attachment
      else
        (case part_filename part of
           None \<Rightarrow> fetch_attachments_loop env rest has_attachment
         | Some filename \<Rightarrow>
             if filename \<noteq> [] \<and> content_type part = ''application/pdf''
             then
               (let file_path = os_path_join (workdir env) filename in
                io_bind (write_file file_path (payload part)) (\<lambda>written.
                io_bind (delay env (Upload_to_s3 file_path)) (\<lambda>enqueued.
                fetch_attachments_loop env rest True)))
             else fetch_attachments_loop env rest has_attachment))"

definition fetch_attachments_and_enqueue :: "env \<Rightarrow> mail_message \<Rightarrow> bool io" where
  "fetch_attachments_and_enqueue env email_message =
     fetch_attachments_loop env (parts email_message) False"

subsection \<open>One mailbox\<close>

text \<open>
  The mail server is read-only in the model: it answers the search with its list of
  unseen messages of the last three days, and the commands sent to it are recorded in
  \<open>imap_trace\<close>. Connecting raises when the host is unknown or does not answer.
\<close>

definition imap_send :: "imap_cmd \<Rightarrow> unit io" where
  "imap_send c = io_modify (\<lambda>w. w\<lparr>imap_trace := imap_trace w @ [c]\<rparr>)"

definition imap_connect :: "string \<Rightarrow> nat \<Rightarrow> bool \<Rightarrow> mail_server io" where
  "imap_connect host port use_ssl =
     io_bind (imap_send (Imap_connect host port use_ssl)) (\<lambda>u w.
     case mail_servers w host of
       None \<Rightarrow> (Inl ConnectionError, w)
     | Some server \<Rightarrow> if reachable server then (Inr server, w) else (Inl ConnectionError, w))"

definition char_lower :: "char \<Rightarrow> char" where
  "char_lower c =
     (if 65 \<le> (of_char c :: nat) \<and> (of_char c :: nat) \<le> 90
      then char_of ((of_char c :: nat) + 32) else c)"

text \<open>\<open>str_in needle s\<close> is Python's \<open>needle in s\<close> on strings.\<close>

fun str_in :: "string \<Rightarrow> string \<Rightarrow> bool" where
  "str_in needle [] = (needle = [])"
| "str_in needle (c # cs) = (starts_with (c # cs) needle \<or> str_in needle cs)"

definition email_already_has_label :: "mail_message \<Rightarrow> string \<Rightarrow> bool io" where
  "email_already_has_label m label =
     io_bind (imap_send (Imap_fetch_labels (msg_num m))) (\<lambda>u.
     io_return (case gm_labels m of None \<Rightarrow> False | Some raw_labels \<Rightarrow> str_in label raw_labels))"

definition mark_as_processed_with_star :: "mail_message \<Rightarrow> unit io" where
  "mark_as_processed_with_star m =
     try_except (imap_send (Imap_store (msg_num m) ''+FLAGS'' (CHR 0x5C # ''Flagged'')))
       (\<lambda>e. io_return ())"

definition mark_as_processed_with_label :: "mail_message \<Rightarrow> string \<Rightarrow> unit io" where
  "mark_as_processed_with_label m label =
     try_except (imap_send (Imap_store (msg_num m) ''+X-GM-LABELS'' label))
       (\<lambda>e. io_return ())"

text \<open>The loop of \<open>pull_inbox\<close> over the message numbers, threading \<open>processed_emails\<close>.\<close>

fun pull_inbox_loop ::
  "env \<Rightarrow> string \<Rightarrow> bool \<Rightarrow> mail_message list \<Rightarrow> (string \<times> string) list \<Rightarrow> unit io" where
  "pull_inbox_loop env host delete_after_process [] processed_emails = io_return ()"
| "pull_inbox_loop env host delete_after_process (m # rest) processed_emails =
     io_bind (imap_send (Imap_fetch (msg_num m))) (\<lambda>fetched.
     if \<not> fetch_ok m
     then pull_inbox_loop env host delete_after_process rest processed_emails
     else
       (case message_id m of
          None \<Rightarrow> pull_inbox_loop env host delete_after_process rest processed_emails
        | Some msg_id \<Rightarrow>
            if msg_id = []
            then pull_inbox_loop env host delete_after_process rest processed_emails
            else if list_ex (\<lambda>kv. fst kv = msg_id) processed_emails
            then pull_inbox_loop env host delete_after_process rest processed_emails
            else
              (let is_gmail_host = str_in ''gmail'' (map char_lower host) in
               io_bind (if is_gmail_host then email_already_has_label m ''Ingested''
                        else io_return False) (\<lambda>labelled.
               if labelled
               then pull_inbox_loop env host delete_after_process rest processed_emails
               else
                 io_bind (fetch_attachments_and_enqueue env m) (\<lambda>has_attachment.
                 io_bind (if is_gmail_host
                          then io_bind (mark_as_processed_with_star m) (\<lambda>u.
                               mark_as_processed_with_label m ''Ingested'')
                          else io_return ()) (\<lambda>marked.
                 io_bind (io_get now) (\<lambda>utc_now.
                 let processed_emails = dict_set processed_emails msg_id (strftime env utc_now) in
                 io_bind (save_processed_emails processed_emails) (\<lambda>saved.
                 io_bind (if delete_after_process
                          then imap_send (Imap_store (msg_num m) ''+FLAGS'' (CHR 0x5C # ''Deleted''))
                          else imap_send (Imap_store (msg_num m) ''-FLAGS'' (CHR 0x5C # ''Seen'')))
                   (\<lambda>stored.
                 pull_inbox_loop env host delete_after_process rest processed_emails)))))))))"

definition pull_inbox ::
  "env \<Rightarrow> string \<Rightarrow> string \<Rightarrow> nat \<Rightarrow> string \<Rightarrow> string \<Rightarrow> bool \<Rightarrow> bool \<Rightarrow> unit io" where
  "pull_inbox env mailbox_key host port username password use_ssl delete_after_process =
     io_bind (load_processed_emails env) (\<lambda>processed_emails.
     try_except
       (io_bind (imap_connect host port use_ssl) (\<lambda>mail.
        io_bind (imap_send (Imap_login username)) (\<lambda>logged_in.
        io_bind (imap_send Imap_select) (\<lambda>selected.
        io_bind (imap_send Imap_search) (\<lambda>searched.
        if \<not> search_ok mail
        then io_bind (imap_send Imap_close) (\<lambda>closed. imap_send Imap_logout)
        else
          io_bind (pull_inbox_loop env host delete_after_process (unseen mail)
                     processed_emails) (\<lambda>looped.
          io_bind (if delete_after_process then imap_send Imap_expunge else io_return ())
            (\<lambda>expunged.
          io_bind (imap_send Imap_close) (\<lambda>closed. imap_send Imap_logout))))))))
       (\<lambda>e. io_return ()))"

text \<open>\<open>not (host and port and username and password)\<close>: each must be set and not empty or zero.\<close>

definition check_and_pull_mailbox :: "env \<Rightarrow> string \<Rightarrow> imap_settings \<Rightarrow> unit io" where
  "check_and_pull_mailbox env mailbox_key s =
     (case (imap_host s, imap_port s, imap_username s, imap_password s) of
        (Some host, Some port, Some username, Some password) \<Rightarrow>
          if host = [] \<or> port = 0 \<or> username = [] \<or> password = [] then io_return ()
          else pull_inbox env mailbox_key host port username password (imap_ssl s)
                 (imap_delete_after_process s)
      | other \<Rightarrow> io_return ())"

definition pull_all_inboxes :: "env \<Rightarrow> unit io" where
  "pull_all_inboxes env =
     io_bind acquire_lock (\<lambda>acquired.
     if \<not> acquired then io_return ()
     else
       try_finally
         (io_bind (check_and_pull_mailbox env ''imap1'' (imap1 env)) (\<lambda>first.
          check_and_pull_mailbox env ''imap2'' (imap2 env)))
         release_lock)"

section \<open>app/tasks/extract\_metadata\_with\_gpt.py\<close>

text \<open>
  \<open>extract_json_from_text\<close> first searches the pattern
  \<^verbatim>\<open>```(?:json)?\s*(\{.*?\})\s*```\<close> with \<open>re.DOTALL\<close>. At a position where the text
  starts with three backquotes, the optional \<open>json\<close> and the greedy \<open>\s*\<close> can only match
  in one way, since what must follow (an opening brace) is neither a letter nor white
  space; the lazy \<open>.*?\<close> then stops at the first closing brace that is followed by white
  space and three backquotes. \<open>re.search\<close> takes the leftmost position that matches.
  \<open>is_space\<close> is \<open>\s\<close> on the characters below 256.
\<close>

definition is_space :: "char \<Rightarrow> bool" where
  "is_space c =
     ((9 \<le> (of_char c :: nat) \<and> (of_char c :: nat) \<le> 13) \<or>
      (28 \<le> (of_char c :: nat) \<and> (of_char c :: nat) \<le> 32) \<or>
      (of_char c :: nat) = 133 \<or> (of_char c :: nat) = 160)"

fun lazy_group :: "string \<Rightarrow> string \<Rightarrow> string option" where
  "lazy_group seen [] = None"
| "lazy_group seen (c # cs) =
     (if c = CHR ''}'' \<and> starts_with (dropWhile is_space cs) ''```''
      then Some (seen @ [c])
      else lazy_group (seen @ [c]) cs)"

definition match_fence_at :: "string \<Rightarrow> string option" where
  "match_fence_at s =
     (if starts_with s ''```''
      then
        (let after_fence = drop 3 s;
             after_json = (if starts_with after_fence ''json'' then drop 4 after_fence
                           else after_fence)
         in case dropWhile is_space after_json of
              [] \<Rightarrow> None
            | c # cs \<Rightarrow> if c = CHR ''{'' then lazy_group [c] cs else None)
      else None)"

fun re_search_fence :: "string \<Rightarrow> string option" where
  "re_search_fence [] = None"
| "re_search_fence (c # cs) =
     (case match_fence_at (c # cs) of
        Some group1 \<Rightarrow> Some group1
      | None \<Rightarrow> re_search_fence cs)"

text \<open>
  The fallback: \<open>text[start:end+1]\<close> for the first opening and the last closing brace,
  when both exist and \<open>end > start\<close>.
\<close>

definition first_to_last_brace :: "string \<Rightarrow> string option" where
  "first_to_last_brace text =
     (let from_start = dropWhile (\<lambda>c. c \<noteq> CHR ''{'') text;
          to_end = rev (dropWhile (\<lambda>c. c \<noteq> CHR ''}'') (rev from_start))
      in if to_end = [] then None else Some to_end)"

definition extract_json_from_text :: "string \<Rightarrow> string option" where
  "extract_json_from_text text =
     (case re_search_fence text of
        Some group1 \<Rightarrow> Some group1
      | None \<Rightarrow> first_to_last_brace text)"

text \<open>
  The call of the language model: the content of the first choice, which may be \<open>None\<close>,
  or the exception the client raises. \<open>prompt_template env\<close> is the f-string of lines 50
  to 80 around the document text. The \<open>LIKE\<close> query of line 109 is answered by
  \<open>sql_like env pattern value\<close>.
\<close>

definition openai_chat :: "env \<Rightarrow> string \<Rightarrow> string option io" where
  "openai_chat env prompt w =
     (case chat_completion env prompt of Inl e \<Rightarrow> (Inl e, w) | Inr content \<Rightarrow> (Inr content, w))"

definition query_first_like :: "env \<Rightarrow> string \<Rightarrow> FileRecord option io" where
  "query_first_like env pattern =
     io_bind db_attempt (\<lambda>u.
     io_get (\<lambda>w. find (\<lambda>r. sql_like env pattern (local_filename r)) (files w)))"

definition extract_metadata_with_gpt_func :: "env \<Rightarrow> string \<Rightarrow> string \<Rightarrow> string \<Rightarrow> json io" where
  "extract_metadata_with_gpt_func env task_id s3_filename cleaned_text =
     try_except
       (io_bind (task_logger (Some task_id)
                   (''Starting metadata extraction for '' @ s3_filename) ''info''
                   (Some task_id) (Some ''extract_metadata'') None None None) (\<lambda>l0.
        let prompt = prompt_template env cleaned_text in
        io_bind (task_logger (Some task_id)
                   (''Sending classification request for '' @ s3_filename) ''info''
                   None (Some ''extract_metadata'') None None None) (\<lambda>l1.
        io_bind (openai_chat env prompt) (\<lambda>content.
        io_bind (task_logger (Some task_id)
                   (''Received raw classification response for '' @ s3_filename) ''info''
                   None (Some ''extract_metadata'') None None None) (\<lambda>l2.
        io_bind (case content of
                   None \<Rightarrow> io_raise TypeError
                 | Some text \<Rightarrow> io_return (extract_json_from_text text)) (\<lambda>json_text.
        if json_text = None \<or> json_text = Some []
        then
          io_bind (task_logger (Some task_id)
                     (''Could not find valid JSON in GPT response for '' @ s3_filename)
                     ''error'' None (Some ''extract_metadata'') None None None) (\<lambda>l3.
          io_return (JObj []))
        else
          io_bind (case json_text of
                     None \<Rightarrow> io_raise TypeError
                   | Some t \<Rightarrow>
                       (case json_loads env t of
                          None \<Rightarrow> io_raise JSONDecodeError
                        | Some j \<Rightarrow> io_return j)) (\<lambda>metadata.
          io_bind (task_logger (Some task_id)
                     (''Successfully extracted metadata from '' @ s3_filename) ''info''
                     None (Some ''extract_metadata'') None None None) (\<lambda>l3.
          io_bind (delay env (Embed_metadata_into_pdf s3_filename cleaned_text metadata))
            (\<lambda>embed_task.
          io_bind (task_logger (Some task_id)
                     (''Triggered embed_metadata task with ID: '' @ embed_task) ''info''
                     None (Some ''extract_metadata'') None None None) (\<lambda>l4.
          io_bind (query_first_like env (''%'' @ s3_filename)) (\<lambda>file_record.
          io_bind (case file_record of
                     Some r \<Rightarrow>
                       task_logger (Some task_id)
                         (''Found file record, updating metadata'') ''info''
                         None (Some ''extract_metadata'') None None None
                   | None \<Rightarrow>
                       task_logger (Some task_id)
                         (''No file record found for '' @ s3_filename) ''warning''
                         None (Some ''extract_metadata'') None None None) (\<lambda>l5.
          io_return (JObj [(''file'', JStr s3_filename), (''metadata'', metadata)])))))))))))))
       (\<lambda>e.
        io_bind (task_logger (Some task_id)
                   (''OpenAI classification failed for '' @ s3_filename @ '': '' @ exn_str e)
                   ''error'' None (Some ''extract_metadata'') None None None) (\<lambda>l6.
        io_return (JObj [])))"

definition extract_metadata_with_gpt :: "env \<Rightarrow> string \<Rightarrow> string \<Rightarrow> string \<Rightarrow> json io" where
  "extract_metadata_with_gpt env task_id s3_filename cleaned_text =
     log_task ''extract_metadata'' (Some s3_filename)
       (extract_metadata_with_gpt_func env task_id s3_filename cleaned_text)"

section \<open>app/tasks/embed\_metadata\_into\_pdf.py\<close>

subsection \<open>A stage that may not return\<close>

text \<open>
  \<open>unique_filepath\<close> loops until it finds a free name. A computation that may run for
  ever yields \<open>None\<close> in that case; \<open>pio_bind\<close> runs a computation that returns and then one
  that may not, \<open>pio_then\<close> the other way round, and \<open>pio_try_except\<close> is \<open>try\<close>/\<open>except\<close>
  around a body that may not return. \<open>log_task_partial\<close> is the decorator \<open>log_task\<close>
  around such a body.
\<close>

type_synonym 'a pio = "world \<Rightarrow> ((exn + 'a) \<times> world) option"

definition pio_lift :: "'a io \<Rightarrow> 'a pio" where
  "pio_lift m w = Some (m w)"

definition pio_bind :: "'a io \<Rightarrow> ('a \<Rightarrow> 'b pio) \<Rightarrow> 'b pio" where
  "pio_bind m k w = (case m w of (Inl e, w') \<Rightarrow> Some (Inl e, w') | (Inr x, w') \<Rightarrow> k x w')"

definition pio_then :: "'a pio \<Rightarrow> ('a \<Rightarrow> 'b io) \<Rightarrow> 'b pio" where
  "pio_then m k w =
     (case m w of
        None \<Rightarrow> None
      | Some (Inl e, w') \<Rightarrow> Some (Inl e, w')
      | Some (Inr x, w') \<Rightarrow> Some (k x w'))"

definition pio_try_except :: "'a pio \<Rightarrow> (exn \<Rightarrow> 'a io) \<Rightarrow> 'a pio" where
  "pio_try_except m h w =
     (case m w of
        None \<Rightarrow> None
      | Some (Inl e, w') \<Rightarrow> Some (h e w')
      | Some (Inr x, w') \<Rightarrow> Some (Inr x, w'))"

definition log_task_partial :: "string \<Rightarrow> string option \<Rightarrow> 'a pio \<Rightarrow> 'a pio" where
  "log_task_partial step_name file_path func =
     pio_bind (log_task_progress ''unknown_task'' step_name ''pending'' (Some ''Task queued'')
                 None file_path) (\<lambda>l0.
     pio_try_except
       (pio_bind (log_task_progress ''unknown_task'' step_name ''in_progress''
                    (Some ''Task started'') None file_path) (\<lambda>l1.
        pio_then func (\<lambda>result.
        io_bind (log_task_progress ''unknown_task'' step_name ''success''
                   (Some ''Task completed'') None file_path) (\<lambda>l2.
        io_return result))))
       (\<lambda>e.
        io_bind (log_task_progress ''unknown_task'' step_name ''failure''
                   (Some (''Error: '' @ exn_str e)) None file_path) (\<lambda>l3.
        io_raise e)))"

subsection \<open>Helpers\<close>

text \<open>\<open>str(n)\<close> for a natural number.\<close>

fun str_nat :: "nat \<Rightarrow> string" where
  "str_nat n =
     (if n < 10 then [char_of (48 + n)]
      else str_nat (n div 10) @ [char_of (48 + n mod 10)])"

partial_function (option) unique_filepath_loop ::
  "(string \<Rightarrow> bool) \<Rightarrow> string \<Rightarrow> string \<Rightarrow> string \<Rightarrow> nat \<Rightarrow> string option" where
  "unique_filepath_loop path_exists directory base_filename extension counter =
     (if \<not> path_exists
             (os_path_join directory (base_filename @ ''_'' @ str_nat counter @ extension))
      then Some (os_path_join directory (base_filename @ ''_'' @ str_nat counter @ extension))
      else unique_filepath_loop path_exists directory base_filename extension (Suc counter))"

definition unique_filepath ::
  "(string \<Rightarrow> bool) \<Rightarrow> string \<Rightarrow> string \<Rightarrow> string \<Rightarrow> string option" where
  "unique_filepath path_exists directory base_filename extension =
     (if \<not> path_exists (os_path_join directory (base_filename @ extension))
      then Some (os_path_join directory (base_filename @ extension))
      else unique_filepath_loop path_exists directory base_filename extension 1)"

text \<open>\<open>shutil.move\<close> to a path that does not name a directory: the file changes its path.\<close>

definition shutil_move :: "string \<Rightarrow> string \<Rightarrow> unit io" where
  "shutil_move src dst =
     io_bind (read_file src) (\<lambda>d.
     io_modify (\<lambda>w. w\<lparr>fs := ((fs w)(src := None))(dst \<mapsto> d)\<rparr>))"

definition persist_metadata :: "env \<Rightarrow> (string \<times> json) list \<Rightarrow> string \<Rightarrow> string io" where
  "persist_metadata env metadata final_pdf_path =
     (let json_path = fst (splitext final_pdf_path) @ ''.json'' in
      io_bind (write_file json_path (json_dumps env (JObj metadata))) (\<lambda>written.
      io_return json_path))"

text \<open>\<open>metadata.get(key, default)\<close> on a dictionary read from JSON.\<close>

definition dict_get :: "(string \<times> json) list \<Rightarrow> string \<Rightarrow> json \<Rightarrow> json" where
  "dict_get d k dflt = (case map_of d k of None \<Rightarrow> dflt | Some v \<Rightarrow> v)"

fun str_join :: "string \<Rightarrow> string list \<Rightarrow> string" where
  "str_join sep [] = []"
| "str_join sep [x] = x"
| "str_join sep (x # y # ys) = x @ sep @ str_join sep (y # ys)"

fun json_strings :: "json list \<Rightarrow> string list option" where
  "json_strings [] = Some []"
| "json_strings (JStr s # js) =
     (case json_strings js of None \<Rightarrow> None | Some ss \<Rightarrow> Some (s # ss))"
| "json_strings (j # js) = None"

text \<open>
  \<open>", ".join(x)\<close> for a value read from JSON: a list must hold strings only, a string is
  joined character by character, a dictionary by its keys; anything else is not iterable.
\<close>

definition join_tags :: "json \<Rightarrow> string io" where
  "join_tags x =
     (case x of
        JList js \<Rightarrow>
          (case json_strings js of
             None \<Rightarrow> io_raise TypeError
           | Some ss \<Rightarrow> io_return (str_join '', '' ss))
      | JStr s \<Rightarrow> io_return (str_join '', '' (map (\<lambda>c. [c]) s))
      | JObj d \<Rightarrow> io_return (str_join '', '' (map fst d))
      | JNull \<Rightarrow> io_raise TypeError
      | JBool b \<Rightarrow> io_raise TypeError
      | JNum n \<Rightarrow> io_raise TypeError)"

text \<open>
  \<open>doc.set_metadata(entries)\<close> and the incremental save over the file itself;
  \<open>fitz_set_metadata env b entries\<close> is the saved file, or \<open>None\<close> when PyMuPDF raises.
\<close>

definition fitz_save_metadata :: "env \<Rightarrow> string \<Rightarrow> (string \<times> json) list \<Rightarrow> unit io" where
  "fitz_save_metadata env path entries =
     io_bind (read_file path) (\<lambda>d.
     case fitz_set_metadata env d entries of
       None \<Rightarrow> io_raise ValueError
     | Some saved \<Rightarrow> write_file path saved)"

subsection \<open>The stage\<close>

text \<open>
  The stage in three parts, in source order from the last: what follows the call of
  \<open>unique_filepath\<close> inside the \<open>try\<close> block (lines 107 to 134), the \<open>try\<close> block from
  its start (lines 80 to 105), and the function (lines 59 to 77 and the handler).
\<close>

definition embed_metadata_into_pdf_finish ::
  "env \<Rightarrow> string option \<Rightarrow> string \<Rightarrow> string \<Rightarrow> (string \<times> json) list \<Rightarrow> string \<Rightarrow> json io" where
  "embed_metadata_into_pdf_finish env current_task original_file processed_file metadata
     final_file_path =
     io_bind (shutil_move processed_file final_file_path) (\<lambda>moved.
     io_bind (task_logger current_task (''Moved processed file to '' @ final_file_path)
                ''info'' None (Some ''embed_metadata'') None None None) (\<lambda>l0.
     io_bind (os_path_exists processed_file) (\<lambda>still_there.
     io_bind (if still_there then os_remove processed_file else io_return ()) (\<lambda>removed.
     io_bind (persist_metadata env metadata final_file_path) (\<lambda>json_path.
     io_bind (task_logger current_task (''Metadata persisted to '' @ json_path) ''info''
                None (Some ''embed_metadata'') None None None) (\<lambda>l1.
     io_bind (delay env (Finalize_document_storage original_file final_file_path
                           (JObj metadata))) (\<lambda>finalize_doc_task.
     io_bind (task_logger current_task
                (''Triggered final document storage with task ID: '' @ finalize_doc_task)
                ''info'' None (Some ''embed_metadata'') None None None) (\<lambda>l2.
     let workdir_tmp = os_path_join (workdir env) ''tmp'' in
     io_bind (os_path_exists original_file) (\<lambda>original_there.
     io_bind (if starts_with original_file workdir_tmp \<and> original_there
              then try_except
                     (io_bind (os_remove original_file) (\<lambda>deleted.
                      io_bind (task_logger current_task
                                 (''Deleted original file from '' @ original_file) ''info''
                                 None (Some ''embed_metadata'') None None None) (\<lambda>l3.
                      io_return ())))
                     (\<lambda>e.
                      io_bind (task_logger current_task
                                 (''Could not delete original file '' @ original_file @
                                  '': '' @ exn_str e) ''warning''
                                 None (Some ''embed_metadata'') None None None) (\<lambda>l3.
                      io_return ()))
              else io_return ()) (\<lambda>cleaned.
     io_return (JObj [(''file'', JStr final_file_path),
                      (''metadata_file'', JStr json_path),
                      (''status'', JStr ''Metadata embedded'')])))))))))))"

definition embed_metadata_into_pdf_try ::
  "env \<Rightarrow> string option \<Rightarrow> string \<Rightarrow> string \<Rightarrow> (string \<times> json) list \<Rightarrow> json pio" where
  "embed_metadata_into_pdf_try env current_task local_file_path processed_file metadata =
     pio_bind (task_logger current_task (''Embedding metadata into '' @ processed_file)
                 ''info'' None (Some ''embed_metadata'') None None None) (\<lambda>l0.
     pio_bind (fitz_open env processed_file) (\<lambda>doc.
     pio_bind (join_tags (dict_get metadata ''tags'' (JList []))) (\<lambda>keywords.
     pio_bind (fitz_save_metadata env processed_file
                 [(''title'', dict_get metadata ''filename'' (JStr ''Unknown Document'')),
                  (''author'', dict_get metadata ''absender'' (JStr ''Unknown'')),
                  (''subject'', dict_get metadata ''document_type'' (JStr ''Unknown'')),
                  (''keywords'', JStr keywords)]) (\<lambda>saved.
     pio_bind (task_logger current_task ''Metadata embedded successfully'' ''info''
                 None (Some ''embed_metadata'') None None None) (\<lambda>l1.
     pio_bind (case dict_get metadata ''filename''
                      (JStr (fst (splitext (basename local_file_path)))) of
                 JStr suggested_filename \<Rightarrow> io_return (fst (splitext suggested_filename))
               | other \<Rightarrow> io_raise TypeError) (\<lambda>suggested_filename.
     let final_dir = os_path_join (workdir env) ''processed'' in
     (\<lambda>w. case unique_filepath (\<lambda>p. fs w p \<noteq> None) final_dir suggested_filename ''.pdf'' of
            None \<Rightarrow> None
          | Some final_file_path \<Rightarrow>
              pio_lift (embed_metadata_into_pdf_finish env current_task local_file_path
                          processed_file metadata final_file_path) w)))))))"

definition embed_metadata_into_pdf_func ::
  "env \<Rightarrow> string option \<Rightarrow> string \<Rightarrow> string \<Rightarrow> (string \<times> json) list \<Rightarrow> json pio" where
  "embed_metadata_into_pdf_func env current_task local_file_path extracted_text metadata =
     pio_bind (os_path_exists local_file_path) (\<lambda>found.
     pio_bind
       (if found then io_return (Some local_file_path)
        else
          (let alt_path = os_path_join (os_path_join (workdir env) ''tmp'')
                            (basename local_file_path) in
           io_bind (os_path_exists alt_path) (\<lambda>alt_found.
           if alt_found
           then io_bind (task_logger current_task (''Using alternative path: '' @ alt_path)
                           ''info'' None (Some ''embed_metadata'') None None None) (\<lambda>l0.
                io_return (Some alt_path))
           else io_bind (task_logger current_task
                           (''Local file '' @ local_file_path @
                            '' not found, cannot embed metadata.'') ''error''
                           None (Some ''embed_metadata'') None None None) (\<lambda>l0.
                io_return None)))) (\<lambda>resolved.
     case resolved of
       None \<Rightarrow> pio_lift (io_return (JObj [(''error'', JStr ''File not found'')]))
     | Some local_file_path \<Rightarrow>
         (let original_file = local_file_path;
              processed_file = os_path_join ''/tmp''
                                 (''processed_'' @ basename local_file_path) in
          pio_bind (shutil_copy original_file processed_file) (\<lambda>copied.
          pio_bind (task_logger current_task (''Created working copy at '' @ processed_file)
                      ''info'' None (Some ''embed_metadata'') None None None) (\<lambda>l1.
          pio_try_except
            (embed_metadata_into_pdf_try env current_task local_file_path processed_file
               metadata)
            (\<lambda>e.
             io_bind (task_logger current_task
                        (''Failed to embed metadata into '' @ processed_file @ '': '' @
                         exn_str e) ''error''
                        None (Some ''embed_metadata'') None None None) (\<lambda>l2.
             io_return (JObj [(''error'', JStr (exn_str e))]))))))))"

definition embed_metadata_into_pdf ::
  "env \<Rightarrow> string option \<Rightarrow> string \<Rightarrow> string \<Rightarrow> (string \<times> json) list \<Rightarrow> json pio" where
  "embed_metadata_into_pdf env current_task local_file_path extracted_text metadata =
     log_task_partial ''embed_metadata'' (Some local_file_path)
       (embed_metadata_into_pdf_func env current_task local_file_path extracted_text metadata)"

(*DEFS*)

section \<open>Notions the properties are stated with\<close>

text \<open>Two worlds that differ at most in the audit log and in the pending store faults.\<close>

definition same_but_log :: "world \<Rightarrow> world \<Rightarrow> bool" where
  "same_but_log w w' \<longleftrightarrow>
     fs w' = fs w \<and> files w' = files w \<and> next_file_id w' = next_file_id w \<and>
     queue w' = queue w \<and> uuid_counter w' = uuid_counter w \<and> now w' = now w \<and>
     redis w' = redis w \<and> cache w' = cache w \<and> mail_servers w' = mail_servers w \<and>
     imap_trace w' = imap_trace w"

text \<open>A small concrete environment and world, for running the model.\<close>

definition demo_env :: env where
  "demo_env =
     \<lparr>workdir = ''/workdir'',
      imap1 = \<lparr>imap_host = Some ''mail.example.org'', imap_port = Some 993,
                imap_username = Some ''scans'', imap_password = Some ''secret'',
                imap_ssl = True, imap_delete_after_process = False\<rparr>,
      imap2 = \<lparr>imap_host = None, imap_port = Some 993, imap_username = None,
                imap_password = None, imap_ssl = True, imap_delete_after_process = False\<rparr>,
      sha256 = (\<lambda>b. ''sha:'' @ b),
      guess_type = (\<lambda>p. if p = ''/workdir/a.pdf'' \<or> p = ''/workdir/b.pdf''
                          then Some ''application/pdf'' else None),
      uuid_of = (\<lambda>n. if n = 0 then ''u0'' else if n = 1 then ''u1''
                       else if n = 2 then ''u2'' else if n = 3 then ''u3'' else ''u4''),
      fitz_pages = (\<lambda>b. if b = ''%PDF text'' then Some [''Invoice 42'', []]
                          else if b = ''%PDF scan'' then Some [[], []]
                          else None),
      fitz_set_metadata = (\<lambda>b m. if b = ''%PDF text'' \<or> b = ''%PDF scan''
                                   then Some (b @ ''+meta'') else None),
      chat_completion = (\<lambda>prompt. Inr (Some ''I cannot classify this document.'')),
      json_loads = (\<lambda>s. if s = ''{}'' then Some (JObj []) else None),
      json_dumps = (\<lambda>j. ''{}''),
      strptime = (\<lambda>s. if s = ''2025-01-01T00:00:00'' then Some 1735689600000000
                        else if s = ''2025-01-09T00:00:00'' then Some 1736380800000000
                        else None),
      strftime = (\<lambda>t. if t = 1736467200000000 then ''2025-01-10T00:00:00''
                       else ''2025-01-10T00:00:01''),
      prompt_template = (\<lambda>text. ''Extracted text: '' @ text),
      sql_like = (\<lambda>pattern v. drop 1 pattern = drop (length v + 1 - length pattern) v)\<rparr>"

definition demo_world :: world where
  "demo_world =
     \<lparr>fs = Map.empty, files = [], next_file_id = 1, processing_logs = [], next_log_id = 1,
      db_faults = [], queue = [], uuid_counter = 0, now = 1736467200000000,
      redis = Map.empty, cache = None, mail_servers = Map.empty, imap_trace = []\<rparr>"

text \<open>
  The store faults left after one call of \<open>log_task_progress\<close>: the lookup of the file id,
  when it is made, and the commit of the entry take one fault each.
\<close>

definition faults_after_log :: "nat option \<Rightarrow> string option \<Rightarrow> bool list \<Rightarrow> bool list" where
  "faults_after_log fid fp fl =
     (if (fid = None \<or> fid = Some 0) \<and> fp \<noteq> None \<and> fp \<noteq> Some []
      then (case fl of [] \<Rightarrow> [] | f # rest \<Rightarrow> if f then rest else tl rest)
      else tl fl)"

text \<open>
  \<open>inserted h w w1\<close>: table \<open>files\<close> of \<open>w1\<close> is that of \<open>w\<close> with one more row at its end,
  the new row has hash \<open>h\<close> and the id that was next in \<open>w\<close>, and no older row changed its
  hash.
\<close>

definition inserted :: "string \<Rightarrow> world \<Rightarrow> world \<Rightarrow> bool" where
  "inserted h w w1 \<longleftrightarrow>
     map filehash (files w1) = map filehash (files w) @ [h] \<and>
     rec_id (last (files w1)) = next_file_id w"

definition two_pdfs_world :: world where
  "two_pdfs_world =
     demo_world\<lparr>fs := [''/workdir/a.pdf'' \<mapsto> ''%PDF text'',
                         ''/workdir/b.pdf'' \<mapsto> ''%PDF text'']\<rparr>"

text \<open>A computation that leaves Redis and the clock as they are, whatever its outcome.\<close>

definition keeps_redis :: "'a io \<Rightarrow> bool" where
  "keeps_redis m \<longleftrightarrow> (\<forall>w. redis (snd (m w)) = redis w \<and> now (snd (m w)) = now w)"

definition demo_cache :: "(string \<times> string) list" where
  "demo_cache = [(''<old@example.org>'', ''2025-01-01T00:00:00''),
                 (''<new@example.org>'', ''2025-01-09T00:00:00'')]"


definition demo_message :: mail_message where
  "demo_message =
     \<lparr>msg_num = ''1'', fetch_ok = True, message_id = Some ''<m1@example.org>'',
      parts = [\<lparr>content_maintype = ''multipart'', content_type = ''multipart/mixed'',
                 part_filename = None, payload = []\<rparr>,
               \<lparr>content_maintype = ''text'', content_type = ''text/plain'',
                 part_filename = None, payload = ''see attachment''\<rparr>,
               \<lparr>content_maintype = ''application'', content_type = ''application/pdf'',
                 part_filename = Some ''scan.pdf'', payload = ''%PDF scan''\<rparr>],
      gm_labels = None\<rparr>"

definition mail_world :: world where
  "mail_world =
     demo_world\<lparr>mail_servers := [''mail.example.org'' \<mapsto>
        \<lparr>reachable = True, search_ok = True, unseen = [demo_message]\<rparr>]\<rparr>"

(*NOTIONS*)

section \<open>The audit log never interrupts a stage\<close>

lemma log_task_progress_body_same:
  "same_but_log w (snd (log_task_progress_body t s st m fid fp w))"
  by (auto simp: log_task_progress_body_def io_bind_def io_return_def io_get_def
      query_first_local_filename_def add_processing_log_def db_attempt_def same_but_log_def
      split: list.split option.split prod.split sum.split)

lemma log_task_progress_body_failed:
  "fst (log_task_progress_body t s st m fid fp w) = Inl e \<Longrightarrow>
     processing_logs (snd (log_task_progress_body t s st m fid fp w)) = processing_logs w"
  by (auto simp: log_task_progress_body_def io_bind_def io_return_def io_get_def
      query_first_local_filename_def add_processing_log_def db_attempt_def
      split: list.splits option.splits prod.splits sum.splits if_splits)

lemma log_task_progress_same:
  "same_but_log w (snd (log_task_progress t s st m fid fp w))"
  using log_task_progress_body_same[of w t s st m fid fp]
  by (auto simp: log_task_progress_def try_except_def io_bind_def io_return_def
      split: prod.split sum.split)

lemma log_task_progress_Inr:
  "\<exists>r. fst (log_task_progress t s st m fid fp w) = Inr r"
  by (auto simp: log_task_progress_def try_except_def io_bind_def io_return_def
      split: prod.split sum.split)

lemma log_task_progress_no_faults:
  "db_faults w = [] \<Longrightarrow> db_faults (snd (log_task_progress t s st m fid fp w)) = []"
  by (auto simp: log_task_progress_def try_except_def io_bind_def io_return_def io_get_def
      log_task_progress_body_def query_first_local_filename_def add_processing_log_def
      db_attempt_def split: prod.split sum.split option.split)

lemma io_bind_log_task_progress:
  "io_bind (log_task_progress t s st m fid fp) k w =
     k (projr (fst (log_task_progress t s st m fid fp w)))
       (snd (log_task_progress t s st m fid fp w))"
proof -
  obtain r where "fst (log_task_progress t s st m fid fp w) = Inr r"
    using log_task_progress_Inr by blast
  then show ?thesis
    by (cases "log_task_progress t s st m fid fp w") (simp add: io_bind_def)
qed

text \<open>
  C10. \<open>log_task_progress\<close> returns for every input and every fault schedule of the
  store, never with an exception. What it changes is confined to the audit log and the
  fault schedule. When the body of its \<open>try\<close> block raises, the result is \<open>None\<close> and no
  audit entry has been written. A caller that sequences it with a continuation \<open>k\<close> always
  reaches \<open>k\<close>.
\<close>

theorem log_task_progress_never_raises:
  "\<exists>r w'. log_task_progress task_id step st msg fid fpath w = (Inr r, w') \<and>
     same_but_log w w' \<and>
     (\<forall>e. fst (log_task_progress_body task_id step st msg fid fpath w) = Inl e \<longrightarrow>
            r = None \<and> processing_logs w' = processing_logs w) \<and>
     (\<forall>k. io_bind (log_task_progress task_id step st msg fid fpath) k w = k r w')"
proof -
  obtain r w' where run: "log_task_progress task_id step st msg fid fpath w = (Inr r, w')"
    using log_task_progress_Inr[of task_id step st msg fid fpath w]
    by (cases "log_task_progress task_id step st msg fid fpath w") auto
  have same: "same_but_log w w'"
    using log_task_progress_same[of w task_id step st msg fid fpath] run by simp
  have failed: "r = None \<and> processing_logs w' = processing_logs w"
    if "fst (log_task_progress_body task_id step st msg fid fpath w) = Inl e" for e
    using that run log_task_progress_body_failed[OF that]
    by (auto simp: log_task_progress_def try_except_def io_bind_def io_return_def
        split: prod.splits sum.splits)
  have cont: "io_bind (log_task_progress task_id step st msg fid fpath) k w = k r w'" for k
    using run by (simp add: io_bind_def)
  from run same failed cont show ?thesis by blast
qed

theorem log_task_progress_never_raises_witness:
  "fst (log_task_progress_body ''t1'' ''ocr'' ''success'' None None None
          (demo_world\<lparr>db_faults := [True]\<rparr>)) = Inl OperationalError \<and>
   fst (log_task_progress ''t1'' ''ocr'' ''success'' None None None
          (demo_world\<lparr>db_faults := [True]\<rparr>)) = Inr None"
proof -
  have body: "fst (log_task_progress_body ''t1'' ''ocr'' ''success'' None None None
          (demo_world\<lparr>db_faults := [True]\<rparr>)) = Inl OperationalError"
    by (simp add: log_task_progress_body_def io_bind_def io_return_def
        add_processing_log_def db_attempt_def demo_world_def)
  from log_task_progress_never_raises[of "''t1''" "''ocr''" "''success''" None None None
      "demo_world\<lparr>db_faults := [True]\<rparr>"] body
  show ?thesis by auto
qed

section \<open>Stages under the decorator\<close>

lemma log_task_progress_frame:
  "fs (snd (log_task_progress t s st m fid fp w)) = fs w"
  "files (snd (log_task_progress t s st m fid fp w)) = files w"
  "next_file_id (snd (log_task_progress t s st m fid fp w)) = next_file_id w"
  "queue (snd (log_task_progress t s st m fid fp w)) = queue w"
  "uuid_counter (snd (log_task_progress t s st m fid fp w)) = uuid_counter w"
  "now (snd (log_task_progress t s st m fid fp w)) = now w"
  "redis (snd (log_task_progress t s st m fid fp w)) = redis w"
  "cache (snd (log_task_progress t s st m fid fp w)) = cache w"
  "mail_servers (snd (log_task_progress t s st m fid fp w)) = mail_servers w"
  "imap_trace (snd (log_task_progress t s st m fid fp w)) = imap_trace w"
  using log_task_progress_same[of w t s st m fid fp] by (simp_all add: same_but_log_def)

lemma io_bind_Inr: "m w = (Inr x, w') \<Longrightarrow> io_bind m k w = k x w'"
  by (simp add: io_bind_def)

lemma io_bind_Inl: "m w = (Inl e, w') \<Longrightarrow> io_bind m k w = (Inl e, w')"
  by (simp add: io_bind_def)

text \<open>
  The decorator runs the task body between two audit entries and writes a third one
  after it; the outcome of the body, value or exception, is passed on unchanged.
\<close>

lemma log_task_run:
  "log_task step fp func w =
     (case func (snd (log_task_progress ''unknown_task'' step ''in_progress''
                        (Some ''Task started'') None fp
                   (snd (log_task_progress ''unknown_task'' step ''pending''
                           (Some ''Task queued'') None fp w)))) of
        (Inr v, w3) \<Rightarrow>
          (Inr v, snd (log_task_progress ''unknown_task'' step ''success''
                         (Some ''Task completed'') None fp w3))
      | (Inl e, w3) \<Rightarrow>
          (Inl e, snd (log_task_progress ''unknown_task'' step ''failure''
                         (Some (''Error: '' @ exn_str e)) None fp w3)))"
proof -
  let ?w2 = "snd (log_task_progress ''unknown_task'' step ''in_progress''
                        (Some ''Task started'') None fp
                   (snd (log_task_progress ''unknown_task'' step ''pending''
                           (Some ''Task queued'') None fp w)))"
  obtain r w3 where f: "func ?w2 = (r, w3)" by (cases "func ?w2")
  show ?thesis
  proof (cases r)
    case (Inl e)
    with f show ?thesis
      by (simp add: log_task_def io_bind_log_task_progress try_except_def
          io_bind_Inl[of func _ e w3] io_raise_def)
  next
    case (Inr v)
    with f show ?thesis
      by (simp add: log_task_def io_bind_log_task_progress try_except_def
          io_bind_Inr[of func _ v w3] io_return_def)
  qed
qed

section \<open>Running a stage step by step\<close>

lemma log_task_progress_faults:
  "db_faults (snd (log_task_progress t s st m fid fp w)) =
     faults_after_log fid fp (db_faults w)"
  by (auto simp: log_task_progress_def try_except_def io_bind_def io_return_def io_get_def
      log_task_progress_body_def query_first_local_filename_def add_processing_log_def
      db_attempt_def faults_after_log_def split: prod.split sum.split option.split list.split)

lemma faults_after_log_Nil: "faults_after_log fid fp [] = []"
  by (simp add: faults_after_log_def)

lemma io_bind_assoc: "io_bind (io_bind m f) k = io_bind m (\<lambda>x. io_bind (f x) k)"
  by (rule ext) (simp add: io_bind_def split: prod.split sum.split)

lemma io_bind_return: "io_bind (io_return x) k w = k x w"
  by (simp add: io_bind_def io_return_def)

lemma io_bind_raise: "io_bind (io_raise e) k w = (Inl e, w)"
  by (simp add: io_bind_def io_raise_def)

lemma io_bind_get: "io_bind (io_get f) k w = k (f w) w"
  by (simp add: io_bind_def io_get_def)

lemma io_bind_modify: "io_bind (io_modify f) k w = k () (f w)"
  by (simp add: io_bind_def io_modify_def)

lemma io_bind_step: "io_bind (\<lambda>w. (Inr (f w), g w)) k w = k (f w) (g w)"
  by (simp add: io_bind_def)

lemma io_bind_db_attempt:
  "io_bind db_attempt k w =
     (case db_faults w of
        [] \<Rightarrow> k () w
      | f # rest \<Rightarrow> if f then (Inl OperationalError, w\<lparr>db_faults := rest\<rparr>)
                    else k () (w\<lparr>db_faults := rest\<rparr>))"
  by (simp add: io_bind_def db_attempt_def split: list.split)

lemma io_bind_read_file:
  "io_bind (read_file p) k w =
     (case fs w p of None \<Rightarrow> (Inl FileNotFoundError, w) | Some d \<Rightarrow> k d w)"
  by (simp add: io_bind_def read_file_def split: option.split)

lemma io_bind_getsize:
  "io_bind (os_path_getsize p) k w =
     (case fs w p of None \<Rightarrow> (Inl FileNotFoundError, w) | Some d \<Rightarrow> k (length d) w)"
  by (simp add: io_bind_def os_path_getsize_def split: option.split)

lemma io_bind_os_remove:
  "io_bind (os_remove p) k w =
     (case fs w p of
        None \<Rightarrow> (Inl FileNotFoundError, w)
      | Some d \<Rightarrow> k () (w\<lparr>fs := (fs w)(p := None)\<rparr>))"
  by (simp add: io_bind_def os_remove_def split: option.split)

lemma io_bind_uuid4:
  "io_bind (uuid4 env) k w =
     k (uuid_of env (uuid_counter w)) (w\<lparr>uuid_counter := Suc (uuid_counter w)\<rparr>)"
  by (simp add: io_bind_def uuid4_def)

lemma io_bind_delay:
  "io_bind (delay env t) k w =
     k (uuid_of env (uuid_counter w))
       (w\<lparr>queue := queue w @ [(uuid_of env (uuid_counter w), t)],
          uuid_counter := Suc (uuid_counter w)\<rparr>)"
  by (simp add: io_bind_def delay_def)

lemmas io_simps = io_bind_step io_bind_assoc io_bind_return io_bind_raise io_bind_get
  io_bind_modify io_bind_db_attempt io_bind_read_file io_bind_getsize io_bind_os_remove
  io_bind_uuid4 io_bind_delay io_bind_log_task_progress log_task_progress_frame
  log_task_progress_faults faults_after_log_Nil task_logger_def
  os_path_exists_def hash_file_def shutil_copy_def write_file_def fitz_open_def
  query_one_or_none_filehash_def insert_file_record_def set_local_filename_def
  Let_def io_return_def io_raise_def

section \<open>Fan-out\<close>

text \<open>
  C4. For every file path, every world and every fault schedule of the store,
  \<open>send_to_all_destinations\<close> returns (it does not raise) the dictionary with the ids of
  three new invocations, and the queue has grown by exactly these three, in the order
  Dropbox, Nextcloud, Paperless, each for the given path. The stage runs no upload and
  reads nothing an upload produces: the invocations are only appended to the queue, and
  what the queue held before is still there. Files and file records are untouched.
\<close>

theorem send_to_all_destinations_enqueues_three:
  "\<exists>w'. send_to_all_destinations env current_task file_path w =
      (Inr (JObj [(''status'', JStr ''All upload tasks enqueued''),
                  (''file_path'', JStr file_path),
                  (''task_ids'',
                   JObj [(''dropbox'', JStr (uuid_of env (uuid_counter w))),
                         (''nextcloud'', JStr (uuid_of env (uuid_counter w + 1))),
                         (''paperless'', JStr (uuid_of env (uuid_counter w + 2)))])]), w') \<and>
     queue w' = queue w @
       [(uuid_of env (uuid_counter w), Upload_to_dropbox file_path),
        (uuid_of env (uuid_counter w + 1), Upload_to_nextcloud file_path),
        (uuid_of env (uuid_counter w + 2), Upload_to_paperless file_path)] \<and>
     fs w' = fs w \<and> files w' = files w"
  by (simp add: send_to_all_destinations_def log_task_run send_to_all_destinations_func_def
      task_logger_def io_bind_log_task_progress log_task_progress_frame Let_def)
     (simp add: io_bind_def delay_def io_return_def log_task_progress_frame
      io_bind_log_task_progress[unfolded io_bind_def] split: prod.split sum.split)

section \<open>The ingest stage\<close>

lemma log_task_fst:
  "fst (log_task step fp func w) =
     fst (func (snd (log_task_progress ''unknown_task'' step ''in_progress''
                        (Some ''Task started'') None fp
                   (snd (log_task_progress ''unknown_task'' step ''pending''
                           (Some ''Task queued'') None fp w)))))"
  by (simp add: log_task_run split: prod.split sum.split)

lemma log_task_frame:
  "fs (snd (log_task step fp func w)) =
     fs (snd (func (snd (log_task_progress ''unknown_task'' step ''in_progress''
                        (Some ''Task started'') None fp
                   (snd (log_task_progress ''unknown_task'' step ''pending''
                           (Some ''Task queued'') None fp w))))))"
  "files (snd (log_task step fp func w)) =
     files (snd (func (snd (log_task_progress ''unknown_task'' step ''in_progress''
                        (Some ''Task started'') None fp
                   (snd (log_task_progress ''unknown_task'' step ''pending''
                           (Some ''Task queued'') None fp w))))))"
  "queue (snd (log_task step fp func w)) =
     queue (snd (func (snd (log_task_progress ''unknown_task'' step ''in_progress''
                        (Some ''Task started'') None fp
                   (snd (log_task_progress ''unknown_task'' step ''pending''
                           (Some ''Task queued'') None fp w))))))"
  by (simp_all add: log_task_run log_task_progress_frame split: prod.split sum.split)

lemma map_filehash_set_local_filename:
  "map filehash (map (\<lambda>r. if rec_id r = i then r\<lparr>local_filename := q\<rparr> else r) rs) =
     map filehash rs"
  by (induction rs) auto

lemma filter_last_hit:
  assumes "map f xs = ys @ [h]" "h \<notin> set ys"
  shows "filter (\<lambda>r. f r = h) xs = [last xs]"
proof (cases xs rule: rev_cases)
  case Nil
  with assms(1) show ?thesis by simp
next
  case (snoc xs' x)
  with assms(1) have a: "map f xs' = ys" and b: "f x = h" by simp_all
  have "filter (\<lambda>r. f r = h) xs' = []"
    using assms(2) a by (auto simp: filter_empty_conv)
  with b snoc show ?thesis by simp
qed

lemma filter_filehash_empty:
  "filter (\<lambda>r. filehash r = h) rs = [] \<Longrightarrow> h \<notin> set (map filehash rs)"
  by (auto simp: filter_empty_conv)

subsection \<open>The steps after the database session\<close>

lemma extract_frame:
  "files (snd (process_document_extract env t p i nf np w)) = files w"
  "fs (snd (process_document_extract env t p i nf np w)) = fs w"
  "next_file_id (snd (process_document_extract env t p i nf np w)) = next_file_id w"
  by (simp_all add: process_document_extract_def io_simps split: option.split)



subsection \<open>The branch that creates the record\<close>

lemma new_record_files:
  "files (snd (process_document_new_record env t p h n sz mime w)) = files w \<or>
   inserted h w (snd (process_document_new_record env t p h n sz mime w))"
  by (simp add: process_document_new_record_def io_simps extract_frame inserted_def
      map_filehash_set_local_filename split: list.split option.split)



subsection \<open>The function from its start\<close>

lemma func_files:
  "files (snd (process_document_func env t p w)) = files w \<or>
   (\<exists>b. fs w p = Some b \<and> filter (\<lambda>r. filehash r = sha256 env b) (files w) = [] \<and>
      inserted (sha256 env b) w (snd (process_document_func env t p w)))"
proof -
  have nr: "files (snd (process_document_new_record env t p h n sz mime w')) = files w \<or>
     inserted h w (snd (process_document_new_record env t p h n sz mime w'))"
    if "files w' = files w" "next_file_id w' = next_file_id w" for h n sz mime w'
    using new_record_files[of env t p h n sz mime w'] that by (simp add: inserted_def)
  show ?thesis
    by (simp add: process_document_func_def io_simps nr split: list.split option.split)
qed

lemma func_duplicate:
  assumes "db_faults w = []" "fs w p = Some b"
    and "filter (\<lambda>r. filehash r = sha256 env b) (files w) = [r]"
  shows "fst (process_document_func env t p w) =
           Inr (JObj [(''status'', JStr ''duplicate_file''),
                      (''file_id'', JNum (int (rec_id r))),
                      (''detail'', JStr ''File already processed.'')])"
    and "files (snd (process_document_func env t p w)) = files w"
    and "queue (snd (process_document_func env t p w)) = queue w"
  using assms by (simp_all add: process_document_func_def io_simps)


subsection \<open>The stage as a whole\<close>

lemmas run_simps = process_document_def log_task_run process_document_func_def
  process_document_new_record_def process_document_extract_def io_simps
  splitext_def basename_def os_path_join_def

text \<open>
  C1. Let a first invocation of \<open>process_document\<close> on a file with bytes \<open>b\<close> have created
  a file record (table \<open>files\<close> has one row more after it), whatever its own outcome was.
  A second invocation in the world the first one left, on any path that holds the same
  bytes, with the store reachable, returns status \<open>duplicate_file\<close> with the id of the
  row the first invocation appended; it adds no row and enqueues nothing. The two paths
  and the two task ids are arbitrary.
\<close>

theorem duplicate_file_on_second_invocation:
  assumes first: "process_document env t1 p1 w0 = (r1, w1)"
    and created: "length (files w1) = Suc (length (files w0))"
    and bytes1: "fs w0 p1 = Some b"
    and bytes2: "fs w1 p2 = Some b"
    and reachable: "db_faults w1 = []"
  shows "\<exists>w2. process_document env t2 p2 w1 =
            (Inr (JObj [(''status'', JStr ''duplicate_file''),
                        (''file_id'', JNum (int (rec_id (last (files w1))))),
                        (''detail'', JStr ''File already processed.'')]), w2) \<and>
          files w2 = files w1 \<and> queue w2 = queue w1 \<and>
          filehash (last (files w1)) = sha256 env b \<and>
          rec_id (last (files w1)) = next_file_id w0"
proof -
  let ?s0 = "snd (log_task_progress ''unknown_task'' ''process_document'' ''in_progress''
                        (Some ''Task started'') None (Some p1)
                   (snd (log_task_progress ''unknown_task'' ''process_document'' ''pending''
                           (Some ''Task queued'') None (Some p1) w0)))"
  let ?s1 = "snd (log_task_progress ''unknown_task'' ''process_document'' ''in_progress''
                        (Some ''Task started'') None (Some p2)
                   (snd (log_task_progress ''unknown_task'' ''process_document'' ''pending''
                           (Some ''Task queued'') None (Some p2) w1)))"
  have w1: "files w1 = files (snd (process_document_func env t1 p1 ?s0))"
    using first log_task_frame(2)[of "''process_document''" "Some p1"
        "process_document_func env t1 p1" w0]
    by (simp add: process_document_def)
  have s0: "files ?s0 = files w0" "fs ?s0 = fs w0" "next_file_id ?s0 = next_file_id w0"
    by (simp_all add: log_task_progress_frame)
  from func_files[of env t1 p1 ?s0] created bytes1
  have nohit: "filter (\<lambda>r. filehash r = sha256 env b) (files w0) = []"
    and ins: "inserted (sha256 env b) w0 w1"
    by (auto simp: w1 s0 inserted_def)
  from ins have hashes: "map filehash (files w1) = map filehash (files w0) @ [sha256 env b]"
    and newid: "rec_id (last (files w1)) = next_file_id w0"
    by (simp_all add: inserted_def)
  have hit: "filter (\<lambda>r. filehash r = sha256 env b) (files w1) = [last (files w1)]"
    using filter_last_hit[OF hashes filter_filehash_empty[OF nohit]] .
  have "files w1 \<noteq> []" using created by auto
  then have "last (files w1) \<in> set (filter (\<lambda>r. filehash r = sha256 env b) (files w1))"
    using hit by simp
  then have newhash: "filehash (last (files w1)) = sha256 env b" by simp
  have s1: "files ?s1 = files w1" "fs ?s1 = fs w1" "queue ?s1 = queue w1" "db_faults ?s1 = []"
    using reachable by (simp_all add: log_task_progress_frame log_task_progress_faults faults_after_log_Nil)
  have hit1: "filter (\<lambda>r. filehash r = sha256 env b) (files ?s1) = [last (files w1)]"
    using hit s1 by simp
  have b1: "fs ?s1 p2 = Some b" using bytes2 s1 by simp
  note dup = func_duplicate[OF s1(4) b1 hit1, of t2]
  obtain r2 w2 where run: "process_document env t2 p2 w1 = (r2, w2)"
    by (cases "process_document env t2 p2 w1")
  have "r2 = Inr (JObj [(''status'', JStr ''duplicate_file''),
                        (''file_id'', JNum (int (rec_id (last (files w1))))),
                        (''detail'', JStr ''File already processed.'')])"
    using run dup(1) log_task_fst[of "''process_document''" "Some p2"
        "process_document_func env t2 p2" w1]
    by (simp add: process_document_def)
  moreover have "files w2 = files w1" "queue w2 = queue w1"
    using run dup(2,3) s1
      log_task_frame(2,3)[of "''process_document''" "Some p2" "process_document_func env t2 p2" w1]
    by (simp_all add: process_document_def)
  ultimately show ?thesis using run newhash newid by simp
qed

theorem duplicate_file_on_second_invocation_witness:
  "fst (process_document demo_env ''t2'' ''/workdir/b.pdf''
          (snd (process_document demo_env ''t1'' ''/workdir/a.pdf'' two_pdfs_world))) =
     Inr (JObj [(''status'', JStr ''duplicate_file''), (''file_id'', JNum 1),
                (''detail'', JStr ''File already processed.'')])"
proof -
  let ?run = "process_document demo_env ''t1'' ''/workdir/a.pdf'' two_pdfs_world"
  have first: "?run = (fst ?run, snd ?run)" by simp
  have created: "length (files (snd ?run)) = Suc (length (files two_pdfs_world))"
    by (simp add: run_simps demo_env_def demo_world_def two_pdfs_world_def)
  have b1: "fs two_pdfs_world ''/workdir/a.pdf'' = Some ''%PDF text''"
    by (simp add: demo_world_def two_pdfs_world_def)
  have b2: "fs (snd ?run) ''/workdir/b.pdf'' = Some ''%PDF text''"
    by (simp add: run_simps demo_env_def demo_world_def two_pdfs_world_def)
  have reach: "db_faults (snd ?run) = []"
    by (simp add: run_simps demo_env_def demo_world_def two_pdfs_world_def)
  from duplicate_file_on_second_invocation[OF first created b1 b2 reach, of "''t2''"]
  show ?thesis by (auto simp: demo_world_def two_pdfs_world_def)
qed







section \<open>The seen-mail cache\<close>

lemma dict_set_fresh: "k \<notin> fst ` set d \<Longrightarrow> dict_set d k v = d @ [(k, v)]"
  by (induction d) auto

lemma cleanup_loop_filter:
  assumes "distinct (map fst (acc @ d))"
    and "\<forall>(k, v)\<in>set d. strptime env v \<noteq> None"
  shows "cleanup_loop env t acc d =
           Inr (acc @ filter (\<lambda>(k, v). \<exists>ts. strptime env v = Some ts \<and> t < ts) d)"
  using assms
proof (induction d arbitrary: acc)
  case Nil
  then show ?case by simp
next
  case (Cons kv d)
  obtain k v where kv: "kv = (k, v)" by (cases kv)
  from Cons.prems(2) kv obtain ts where ts: "strptime env v = Some ts" by auto
  have fresh: "k \<notin> fst ` set acc" using Cons.prems(1) kv by auto
  show ?case
  proof (cases "t < ts")
    case True
    have "distinct (map fst ((acc @ [(k, v)]) @ d))" using Cons.prems(1) kv by auto
    from Cons.IH[OF this] Cons.prems(2) kv ts True fresh show ?thesis
      by (simp add: dict_set_fresh)
  next
    case False
    have "distinct (map fst (acc @ d))" using Cons.prems(1) kv by auto
    from Cons.IH[OF this] Cons.prems(2) kv ts False show ?thesis by simp
  qed
qed

text \<open>
  C6. Let the cache file hold a mapping from message ids to timestamp strings: the keys
  are distinct, as in every JSON object read into a dictionary, and every value parses
  under the cache's format. Then \<open>load_processed_emails\<close> returns, in their order and with
  their values unchanged, exactly the entries whose instant is strictly later than seven
  days before the clock; it leaves the world as it is. Saving what was loaded leaves
  exactly these entries in the file.
\<close>

theorem load_processed_emails_keeps_recent:
  assumes stored: "cache w = Some (Json_dict d)"
    and keys: "distinct (map fst d)"
    and stamps: "\<forall>(k, v)\<in>set d. strptime env v \<noteq> None"
  shows "load_processed_emails env w =
           (Inr (filter (\<lambda>(k, v). \<exists>ts. strptime env v = Some ts \<and>
                                   now w - 7 * 86400000000 < ts) d), w) \<and>
         io_bind (load_processed_emails env) save_processed_emails w =
           (Inr (), w\<lparr>cache := Some (Json_dict
              (filter (\<lambda>(k, v). \<exists>ts. strptime env v = Some ts \<and>
                                now w - 7 * 86400000000 < ts) d))\<rparr>)"
  using cleanup_loop_filter[of "[]" d env "now w - 7 * 86400000000"] assms
  by (simp add: load_processed_emails_def cleanup_old_entries_def timedelta_days_def
      save_processed_emails_def io_bind_def io_modify_def)

theorem load_processed_emails_keeps_recent_witness:
  "load_processed_emails demo_env (demo_world\<lparr>cache := Some (Json_dict demo_cache)\<rparr>) =
     (Inr [(''<new@example.org>'', ''2025-01-09T00:00:00'')],
      demo_world\<lparr>cache := Some (Json_dict demo_cache)\<rparr>)"
proof -
  have "cache (demo_world\<lparr>cache := Some (Json_dict demo_cache)\<rparr>) = Some (Json_dict demo_cache)"
    and "distinct (map fst demo_cache)"
    and "\<forall>(k, v)\<in>set demo_cache. strptime demo_env v \<noteq> None"
    by (simp_all add: demo_cache_def demo_env_def)
  from load_processed_emails_keeps_recent[OF this]
  show ?thesis by (simp add: demo_cache_def demo_env_def demo_world_def)
qed

section \<open>The mailbox poller\<close>

lemma keeps_redis_bind:
  "keeps_redis m \<Longrightarrow> (\<And>x. keeps_redis (k x)) \<Longrightarrow> keeps_redis (io_bind m k)"
  by (auto simp: keeps_redis_def io_bind_def split: prod.split sum.split)
     (metis snd_conv)+

lemma keeps_redis_try_except:
  "keeps_redis m \<Longrightarrow> (\<And>e. keeps_redis (h e)) \<Longrightarrow> keeps_redis (try_except m h)"
  by (auto simp: keeps_redis_def try_except_def split: prod.split sum.split)
     (metis snd_conv)+

lemma keeps_redis_if:
  "keeps_redis a \<Longrightarrow> keeps_redis b \<Longrightarrow> keeps_redis (if c then a else b)"
  by simp

lemma keeps_redis_prims:
  "keeps_redis (io_return x)"
  "keeps_redis (io_raise e)"
  "keeps_redis (io_get f)"
  "keeps_redis (imap_send c)"
  "keeps_redis (write_file p d)"
  "keeps_redis (delay env t)"
  "keeps_redis (save_processed_emails pe)"
  "keeps_redis (load_processed_emails env)"
  by (auto simp: keeps_redis_def io_return_def io_raise_def io_get_def imap_send_def
      io_modify_def write_file_def delay_def save_processed_emails_def
      load_processed_emails_def cleanup_old_entries_def
      split: option.split cache_file.split sum.split)

lemma keeps_redis_attachments: "keeps_redis (fetch_attachments_loop env ps h)"
  by (induction env ps h rule: fetch_attachments_loop.induct)
     (auto simp: Let_def intro!: keeps_redis_bind keeps_redis_prims split: option.split)

lemma keeps_redis_connect: "keeps_redis (imap_connect host port ssl)"
  by (auto simp: keeps_redis_def imap_connect_def io_bind_def imap_send_def io_modify_def
      split: option.split)

lemma keeps_redis_marks:
  "keeps_redis (email_already_has_label m l)"
  "keeps_redis (mark_as_processed_with_star m)"
  "keeps_redis (mark_as_processed_with_label m l)"
  by (auto simp: email_already_has_label_def mark_as_processed_with_star_def
      mark_as_processed_with_label_def
      intro!: keeps_redis_bind keeps_redis_try_except keeps_redis_prims)

lemma keeps_redis_loop: "keeps_redis (pull_inbox_loop env host del ms pe)"
  by (induction env host del ms pe rule: pull_inbox_loop.induct)
     (auto simp: Let_def fetch_attachments_and_enqueue_def
       intro!: keeps_redis_bind keeps_redis_prims keeps_redis_marks keeps_redis_attachments
       split: option.split)

lemma keeps_redis_pull_inbox: "keeps_redis (pull_inbox env k host port u p ssl del)"
  by (auto simp: pull_inbox_def
      intro!: keeps_redis_bind keeps_redis_try_except keeps_redis_prims keeps_redis_connect
        keeps_redis_loop)

lemma keeps_redis_check: "keeps_redis (check_and_pull_mailbox env k s)"
  by (auto simp: check_and_pull_mailbox_def intro!: keeps_redis_prims keeps_redis_pull_inbox
      split: option.split prod.split)







text \<open>
  C9: the poller writes each PDF attachment to the working directory and enqueues, for
  its path, the task \<open>upload_to_s3\<close>, not \<open>process_document\<close>. For a message with one
  PDF attachment, and for a whole poller cycle over a mailbox that holds this message:
\<close>

theorem poller_enqueues_upload_to_s3:
  "fetch_attachments_and_enqueue demo_env demo_message demo_world =
     (Inr True,
      demo_world\<lparr>fs := [''/workdir/scan.pdf'' \<mapsto> ''%PDF scan''],
                 queue := [(''u0'', Upload_to_s3 ''/workdir/scan.pdf'')],
                 uuid_counter := 1\<rparr>) \<and>
   queue (snd (pull_all_inboxes demo_env mail_world)) =
     [(''u0'', Upload_to_s3 ''/workdir/scan.pdf'')]"
  by (simp add: fetch_attachments_and_enqueue_def demo_message_def demo_world_def demo_env_def
      os_path_join_def write_file_def delay_def imap_send_def mail_world_def
      pull_all_inboxes_def acquire_lock_def redis_setnx_def redis_expire_def redis_live_def
      LOCK_KEY_def LOCK_EXPIRE_def try_finally_def check_and_pull_mailbox_def pull_inbox_def
      load_processed_emails_def try_except_def imap_connect_def io_bind_def io_modify_def
      io_return_def save_processed_emails_def release_lock_def redis_delete_def io_get_def
      char_lower_def Let_def)

section \<open>The classification stage\<close>

lemma try_except_log_task_progress_handler:
  "try_except m (\<lambda>e. io_bind (log_task_progress t s st (msg e) fid fp) (\<lambda>l. io_return v)) w =
     (case m w of
        (Inl e, w') \<Rightarrow> (Inr v, snd (log_task_progress t s st (msg e) fid fp w'))
      | (Inr x, w') \<Rightarrow> (Inr x, w'))"
  by (simp add: try_except_def io_bind_log_task_progress io_return_def split: prod.split sum.split)

lemma gpt_func_no_json:
  assumes "chat_completion env (prompt_template env cleaned_text) = Inr (Some content)"
    and "extract_json_from_text content = None"
  shows "fst (extract_metadata_with_gpt_func env t f cleaned_text w) = Inr (JObj [])"
    and "queue (snd (extract_metadata_with_gpt_func env t f cleaned_text w)) = queue w"
    and "fs (snd (extract_metadata_with_gpt_func env t f cleaned_text w)) = fs w"
    and "files (snd (extract_metadata_with_gpt_func env t f cleaned_text w)) = files w"
  using assms
  by (simp_all add: extract_metadata_with_gpt_func_def task_logger_def Let_def
      try_except_log_task_progress_handler io_simps openai_chat_def io_bind_def[of "openai_chat env p" for p])

lemma gpt_func_never_raises:
  "\<exists>v. fst (extract_metadata_with_gpt_func env t f cleaned_text w) = Inr v"
  by (simp add: extract_metadata_with_gpt_func_def task_logger_def Let_def
      try_except_log_task_progress_handler split: prod.split sum.split)

text \<open>
  C5. \<open>extract_metadata_with_gpt\<close> returns on every input, for every behaviour of the
  language model and of the store: it never raises. When the model answers with a text
  in which \<open>extract_json_from_text\<close> finds nothing, the result is the empty dictionary,
  and the stage has enqueued nothing and touched neither a file nor a file record: no
  embedding, finalize or fan-out task follows.
\<close>

theorem no_json_in_response_ends_the_pipeline:
  "(\<exists>v w'. extract_metadata_with_gpt env t f cleaned_text w = (Inr v, w')) \<and>
   (chat_completion env (prompt_template env cleaned_text) = Inr (Some content) \<and>
    extract_json_from_text content = None \<longrightarrow>
      (\<exists>w'. extract_metadata_with_gpt env t f cleaned_text w = (Inr (JObj []), w') \<and>
            queue w' = queue w \<and> fs w' = fs w \<and> files w' = files w))"
proof -
  let ?s = "snd (log_task_progress ''unknown_task'' ''extract_metadata'' ''in_progress''
                        (Some ''Task started'') None (Some f)
                   (snd (log_task_progress ''unknown_task'' ''extract_metadata'' ''pending''
                           (Some ''Task queued'') None (Some f) w)))"
  obtain r w' where run: "extract_metadata_with_gpt env t f cleaned_text w = (r, w')"
    by (cases "extract_metadata_with_gpt env t f cleaned_text w")
  have r: "r = fst (extract_metadata_with_gpt_func env t f cleaned_text ?s)"
    using run log_task_fst[of "''extract_metadata''" "Some f"
        "extract_metadata_with_gpt_func env t f cleaned_text" w]
    by (simp add: extract_metadata_with_gpt_def)
  have w': "queue w' = queue (snd (extract_metadata_with_gpt_func env t f cleaned_text ?s))"
    "fs w' = fs (snd (extract_metadata_with_gpt_func env t f cleaned_text ?s))"
    "files w' = files (snd (extract_metadata_with_gpt_func env t f cleaned_text ?s))"
    using run log_task_frame[of "''extract_metadata''" "Some f"
        "extract_metadata_with_gpt_func env t f cleaned_text" w]
    by (simp_all add: extract_metadata_with_gpt_def)
  have "\<exists>v. r = Inr v" using r gpt_func_never_raises by simp
  moreover have "r = Inr (JObj []) \<and> queue w' = queue w \<and> fs w' = fs w \<and> files w' = files w"
    if "chat_completion env (prompt_template env cleaned_text) = Inr (Some content) \<and>
        extract_json_from_text content = None"
    using that r w' gpt_func_no_json[of env cleaned_text content t f ?s]
    by (simp add: log_task_progress_frame)
  ultimately show ?thesis using run by auto
qed

theorem no_json_in_response_ends_the_pipeline_witness:
  "chat_completion demo_env (prompt_template demo_env ''Dear Sir'') =
     Inr (Some ''I cannot classify this document.'') \<and>
   extract_json_from_text ''I cannot classify this document.'' = None \<and>
   fst (extract_metadata_with_gpt demo_env ''t3'' ''u0.pdf'' ''Dear Sir'' demo_world) = Inr (JObj []) \<and>
   queue (snd (extract_metadata_with_gpt demo_env ''t3'' ''u0.pdf'' ''Dear Sir'' demo_world)) = []"
proof -
  have a: "chat_completion demo_env (prompt_template demo_env ''Dear Sir'') =
     Inr (Some ''I cannot classify this document.'')"
    by (simp add: demo_env_def)
  have b: "extract_json_from_text ''I cannot classify this document.'' = None"
    by (simp add: extract_json_from_text_def first_to_last_brace_def match_fence_at_def)
  from no_json_in_response_ends_the_pipeline[of demo_env "''t3''" "''u0.pdf''" "''Dear Sir''"
      demo_world "''I cannot classify this document.''"] a b
  show ?thesis by (auto simp: demo_world_def)
qed

(*THMS*)

end
